theory Spec2Isabelle
  imports Main "HOL-Library.Sublist"
begin

section \<open>Diagnostics\<close>

text \<open>
  The transpiler aborts by throwing. A throw is modelled as the left injection of a sum,
  so every function that can throw (or that calls something that can) returns
  \<open>error + 'a\<close>. \<open>TranspilerError\<close> carries the message and the error kind; the
  offending node, used for source positions only, is left out. \<open>ThrownError\<close> stands
  for the exceptions of the host language and its libraries (\<open>getSymbolOrThrow\<close>, a
  method call on \<open>undefined\<close>).
\<close>

text \<open>
  Modelled from the spec: the enumeration \<open>TranspilerErrorType\<close> is declared in a module
  that is not among the sources. Its members here are the kinds that the sources raise;
  \<open>OtherTranspilerErrorType\<close> stands for the kinds that only collaborators raise.
\<close>

datatype TranspilerErrorType =
    RoactSubClassesNotSupported
  | UndefinableMetamethod
  | ExpectedPropertyAccessExpression
  | NoMacroMathExpressionStatement
  | ExportInNonModuleScript
  | MultipleExportEquals
  | OtherTranspilerErrorType string

datatype error =
    TranspilerError string TranspilerErrorType
  | ThrownError string

definition bindE :: "error + 'a \<Rightarrow> ('a \<Rightarrow> error + 'b) \<Rightarrow> error + 'b" where
  "bindE m f = (case m of Inl e \<Rightarrow> Inl e | Inr x \<Rightarrow> f x)"

section \<open>Transpilation state\<close>

text \<open>
  Modelled from the spec: the classifications of a script, \<open>ScriptContext\<close> and
  \<open>ScriptType\<close>, are declared in a module that is not among the sources. The wrapper
  only stores the context and only compares the type with \<open>Module\<close>.
\<close>

datatype ScriptContext = ScriptContext string

datatype ScriptType = Server | Client | Module

text \<open>
  Modelled from the spec: the class \<open>TranspilerState\<close> is not among the sources. Its
  fields are the ones the specification lists (indentation, the stack of hoist scopes,
  the export registry, the fresh-identifier counter, the runtime-library flag, the
  module flag and the script classification); the lowering functions below read and
  write \<open>indent\<close>, \<open>hoistStack\<close>, \<open>usesTSLibrary\<close>, \<open>isModule\<close> and \<open>scriptContext\<close>.
\<close>

record TranspilerState =
  indent :: string
  hoistStack :: "string set list"
  exportRegistry :: "string list"
  idCounter :: nat
  usesTSLibrary :: bool
  isModule :: bool
  scriptContext :: ScriptContext

text \<open>
  Modelled from the spec: \<open>pushIndent\<close> and \<open>popIndent\<close> are methods of the missing
  \<open>TranspilerState\<close>. Indentation is a nesting depth written before every emitted
  line: one tab per level, pushed on entering a scope and popped on leaving it.
\<close>

definition pushIndent :: "TranspilerState \<Rightarrow> TranspilerState" where
  "pushIndent state = state\<lparr>indent := indent state @ [CHR 0x09]\<rparr>"

definition popIndent :: "TranspilerState \<Rightarrow> TranspilerState" where
  "popIndent state = state\<lparr>indent := butlast (indent state)\<rparr>"

section \<open>The resolved syntax tree\<close>

text \<open>
  The input is a syntax tree with type information, read through the \<open>ts-morph\<close>
  interface. Each node is modelled by what the queries used in the sources return. The
  predicates \<open>isArrayType\<close> and \<open>isTupleType\<close> come from a module that is not among the
  sources; they are attributes of the type here.
\<close>

datatype declarationKind = MethodDeclaration | MethodSignature | OtherDeclaration

record tsSymbol =
  sym_getEscapedName :: string
  sym_getName :: string
  sym_getDeclarations :: "declarationKind list"

record tsType =
  isArrayType :: bool
  isTupleType :: bool
  isString :: bool
  isStringLiteral :: bool
  getSymbol :: "tsSymbol option"

datatype expression =
    PropertyAccessExpression expression string tsType
  | SuperExpression tsType
  | OtherExpression string tsType

fun getType :: "expression \<Rightarrow> tsType" where
  "getType (PropertyAccessExpression subExp property t) = t"
| "getType (SuperExpression t) = t"
| "getType (OtherExpression text t) = t"

fun isSuperExpression :: "expression \<Rightarrow> bool" where
  "isSuperExpression (SuperExpression t) = True"
| "isSuperExpression (PropertyAccessExpression subExp property t) = False"
| "isSuperExpression (OtherExpression text t) = False"

record callExpression =
  call_getExpression :: expression
  call_getArguments :: "expression list"
  call_getReturnType :: tsType
  call_parentIsExpressionStatement :: bool

text \<open>\<open>type.getSymbolOrThrow()\<close> of the library throws when the type has no symbol.\<close>

definition getSymbolOrThrow :: "tsType \<Rightarrow> error + tsSymbol" where
  "getSymbolOrThrow t =
     (case getSymbol t of
        None \<Rightarrow> Inl (ThrownError ''Expected to find a symbol.'')
      | Some s \<Rightarrow> Inr s)"

subsection \<open>Class nodes\<close>

text \<open>
  A class declaration or expression, as the queries of the class lowering see it. An
  instance property is a property declaration, a get or set accessor or a parameter
  property; \<open>prop_parentIsNode\<close> is the test \<open>prop.getParent() === node\<close>. A method
  records whether it has a body. \<open>class_getExtendsTypeNodes\<close> is \<open>None\<close> when there is
  no \<open>extends\<close> clause and lists the expressions of its type nodes otherwise.
  \<open>class_getName\<close> is \<open>None\<close> for a class without a name node. The base class is the
  resolved declaration of the superclass, so the ancestors of a class form a finite chain.
\<close>

datatype propertyKind =
    PropertyDeclaration
  | GetAccessorDeclaration
  | SetAccessorDeclaration
  | ParameterDeclaration

record classProperty =
  prop_getName :: string
  prop_kind :: propertyKind
  prop_parentIsNode :: bool
  prop_isInitializerExpressionable :: bool
  prop_getInitializer :: "expression option"

record classMethod =
  method_getName :: string
  method_hasBody :: bool

datatype classMember = MethodMember classMethod | PropertyMember classProperty

record constructorDeclaration =
  ctor_getText :: string

record baseType =
  baseType_getText :: string

datatype classKind = ClassDeclaration | ClassExpression

datatype classNode = ClassNode
  (class_kind: classKind)
  (class_getName: "string option")
  (class_isAbstract: bool)
  (class_getBaseTypes: "baseType list")
  (class_getExtendsTypeNodes: "expression list option")
  (class_getBaseClass: "classNode option")
  (class_getStaticMembers: "classMember list")
  (class_getStaticProperties: "classProperty list")
  (class_getStaticMethods: "classMethod list")
  (class_getInstanceMembers: "classMember list")
  (class_getInstanceProperties: "classProperty list")
  (class_getInstanceMethods: "classMethod list")
  (class_getMethods: "classMethod list")
  (class_getConstructors: "constructorDeclaration list")

text \<open>\<open>classDec.getMethod(name)\<close>: the first method declaration of the class with that name.\<close>

definition class_getMethod :: "classNode \<Rightarrow> string \<Rightarrow> classMethod option" where
  "class_getMethod classDec methodName =
     find (\<lambda>m. method_getName m = methodName) (class_getMethods classDec)"

lemma size_getBaseClass: "class_getBaseClass c = Some b \<Longrightarrow> size b < size c"
  by (cases c) simp

lemma size_option_getBaseClass: "size_option size (class_getBaseClass c) < Suc (size c)"
  by (cases c) simp

subsection \<open>Source files\<close>

text \<open>
  Of a source file the wrapper reads its descendants of kind \<open>ExportAssignment\<close>, in
  document order; such a node is either \<open>export = e\<close> (\<open>isExportEquals\<close>) or
  \<open>export default e\<close>. The rest of the file is seen by the collaborators only.
\<close>

record exportAssignment =
  isExportEquals :: bool

record sourceFile =
  file_getText :: string
  file_getExportAssignments :: "exportAssignment list"

section \<open>Collaborators of the call lowering\<close>

text \<open>
  The generic expression lowering, the argument-list lowering and the API-access check
  are not among the sources. They are parameters: each takes the state and returns an
  error or its result with the state it leaves behind.
\<close>

record callCollaborators =
  validateApiAccess :: "TranspilerState \<Rightarrow> string \<Rightarrow> error + TranspilerState"
  transpileExpression :: "TranspilerState \<Rightarrow> expression \<Rightarrow> error + string \<times> TranspilerState"
  transpileArguments :: "TranspilerState \<Rightarrow> expression list \<Rightarrow> error + string \<times> TranspilerState"

section \<open>Call lowering (\<open>src/transpiler/call.ts\<close>)\<close>

definition STRING_MACRO_METHODS :: "string list" where
  "STRING_MACRO_METHODS =
     [''byte'', ''find'', ''format'', ''gmatch'', ''gsub'', ''len'', ''lower'', ''match'',
      ''rep'', ''reverse'', ''sub'', ''upper'']"

definition RBX_MATH_CLASSES :: "string list" where
  "RBX_MATH_CLASSES =
     [''CFrame'', ''UDim'', ''UDim2'', ''Vector2'', ''Vector2int16'', ''Vector3'',
      ''Vector3int16'']"

text \<open>
  \<open>let paramStr = accessPath; if (params.length > 0) { paramStr += ", " + params; }\<close>
\<close>

definition paramStr :: "string \<Rightarrow> string \<Rightarrow> string" where
  "paramStr accessPath params =
     (if length params > 0 then accessPath @ '', '' @ params else accessPath)"

text \<open>
  The tuple wrapping that ends both the plain call and the default member call.
\<close>

definition wrapTupleReturn :: "bool \<Rightarrow> tsType \<Rightarrow> string \<Rightarrow> string" where
  "wrapTupleReturn doNotWrapTupleReturn returnType result =
     (if \<not> doNotWrapTupleReturn \<and> isTupleType returnType
      then ''{ '' @ result @ '' }'' else result)"

text \<open>
  \<open>validateMathCall\<close>: the closure throws when the call's parent is an expression
  statement.
\<close>

definition validateMathCall :: "callExpression \<Rightarrow> string \<Rightarrow> string \<Rightarrow> error + unit" where
  "validateMathCall node subExpTypeName property =
     (if call_parentIsExpressionStatement node
      then Inl (TranspilerError
                 (subExpTypeName @ ''.'' @ property @ ''() cannot be an expression statement!'')
                 NoMacroMathExpressionStatement)
      else Inr ())"

definition mathMacro ::
  "callExpression \<Rightarrow> string \<Rightarrow> string \<Rightarrow> string \<Rightarrow> string \<Rightarrow> string \<Rightarrow> TranspilerState
     \<Rightarrow> error + string \<times> TranspilerState" where
  "mathMacro node subExpTypeName property operator accessPath params state =
     bindE (validateMathCall node subExpTypeName property) (\<lambda>_.
       Inr (''('' @ accessPath @ '' '' @ operator @ '' ('' @ params @ ''))'', state))"

text \<open>
  The macros selected by the name of the receiver type's symbol (lines 91 to 159). The
  result is \<open>None\<close> where the source falls through to the default member call.
\<close>

definition namedTypeMacro ::
  "callExpression \<Rightarrow> tsType \<Rightarrow> string \<Rightarrow> string \<Rightarrow> string \<Rightarrow> TranspilerState
     \<Rightarrow> (error + string \<times> TranspilerState) option" where
  "namedTypeMacro node subExpType property accessPath params state =
     (case getSymbol subExpType of
        None \<Rightarrow> None
      | Some subExpTypeSym \<Rightarrow>
          let subExpTypeName = sym_getEscapedName subExpTypeSym in
          if subExpTypeName = ''Promise'' \<and> property = ''then'' then
            Some (Inr (accessPath @ '':andThen('' @ params @ '')'', state))
          else if subExpTypeName = ''SymbolConstructor'' \<and> property = ''for'' then
            Some (Inr (accessPath @ ''.getFor('' @ params @ '')'', state))
          else if subExpTypeName = ''Map'' \<or> subExpTypeName = ''ReadonlyMap''
                  \<or> subExpTypeName = ''WeakMap'' then
            Some (Inr (''TS.map_'' @ property @ ''('' @ paramStr accessPath params @ '')'',
                       state\<lparr>usesTSLibrary := True\<rparr>))
          else if subExpTypeName = ''Set'' \<or> subExpTypeName = ''ReadonlySet''
                  \<or> subExpTypeName = ''WeakSet'' then
            Some (Inr (''TS.set_'' @ property @ ''('' @ paramStr accessPath params @ '')'',
                       state\<lparr>usesTSLibrary := True\<rparr>))
          else if subExpTypeName = ''ObjectConstructor'' then
            Some (Inr (''TS.Object_'' @ property @ ''('' @ params @ '')'',
                       state\<lparr>usesTSLibrary := True\<rparr>))
          else if subExpTypeName \<in> set RBX_MATH_CLASSES then
            (if property = ''add'' then
               Some (mathMacro node subExpTypeName property ''+'' accessPath params state)
             else if property = ''sub'' then
               Some (mathMacro node subExpTypeName property ''-'' accessPath params state)
             else if property = ''mul'' then
               Some (mathMacro node subExpTypeName property ''*'' accessPath params state)
             else if property = ''div'' then
               Some (mathMacro node subExpTypeName property ''/'' accessPath params state)
             else None)
          else None)"

text \<open>
  The default member call (lines 161 to 188): the separator is a colon when the member
  resolves to a method, except on a \<open>super\<close> receiver, where the path goes through the
  base class's \<open>__index\<close> table and \<open>self\<close> is passed explicitly.
\<close>

definition resolvesToMethod :: "tsType \<Rightarrow> bool" where
  "resolvesToMethod expType =
     (case getSymbol expType of
        None \<Rightarrow> False
      | Some symbol \<Rightarrow>
          list_ex (\<lambda>dec. dec = MethodDeclaration \<or> dec = MethodSignature)
            (sym_getDeclarations symbol))"

definition defaultMemberCall ::
  "callExpression \<Rightarrow> bool \<Rightarrow> expression \<Rightarrow> tsType \<Rightarrow> string \<Rightarrow> string \<Rightarrow> string
     \<Rightarrow> TranspilerState \<Rightarrow> error + string \<times> TranspilerState" where
  "defaultMemberCall node doNotWrapTupleReturn subExp expType property accessPath params state =
     (if resolvesToMethod expType then
        (if isSuperExpression subExp then
           bindE (getSymbolOrThrow (getType subExp)) (\<lambda>classSym.
             let className = sym_getName classSym;
                 accessPath = className @ ''.__index'';
                 params = ''self'' @ (if length params > 0 then '', '' else '''') @ params
             in Inr (wrapTupleReturn doNotWrapTupleReturn (call_getReturnType node)
                       (accessPath @ ''.'' @ property @ ''('' @ params @ '')''), state))
         else
           Inr (wrapTupleReturn doNotWrapTupleReturn (call_getReturnType node)
                  (accessPath @ '':'' @ property @ ''('' @ params @ '')''), state))
      else
        Inr (wrapTupleReturn doNotWrapTupleReturn (call_getReturnType node)
               (accessPath @ ''.'' @ property @ ''('' @ params @ '')''), state))"

definition transpilePropertyCallExpression ::
  "callCollaborators \<Rightarrow> TranspilerState \<Rightarrow> callExpression \<Rightarrow> bool
     \<Rightarrow> error + string \<times> TranspilerState" where
  "transpilePropertyCallExpression env state node doNotWrapTupleReturn =
     (case call_getExpression node of
        PropertyAccessExpression subExp property expType \<Rightarrow>
          bindE (validateApiAccess env state property) (\<lambda>state.
          bindE (transpileExpression env state subExp) (\<lambda>(accessPath, state).
          bindE (transpileArguments env state (call_getArguments node)) (\<lambda>(params, state).
            let subExpType = getType subExp in
            if isArrayType subExpType then
              Inr (''TS.array_'' @ property @ ''('' @ paramStr accessPath params @ '')'',
                   state\<lparr>usesTSLibrary := True\<rparr>)
            else if isString subExpType \<or> isStringLiteral subExpType then
              (if property \<in> set STRING_MACRO_METHODS then
                 Inr (''string.'' @ property @ ''('' @ paramStr accessPath params @ '')'', state)
               else
                 Inr (''TS.string_'' @ property @ ''('' @ paramStr accessPath params @ '')'',
                      state\<lparr>usesTSLibrary := True\<rparr>))
            else
              (case namedTypeMacro node subExpType property accessPath params state of
                 Some r \<Rightarrow> r
               | None \<Rightarrow>
                   defaultMemberCall node doNotWrapTupleReturn subExp expType property
                     accessPath params state))))
      | SuperExpression t \<Rightarrow>
          Inl (TranspilerError ''Expected PropertyAccessExpression''
                 ExpectedPropertyAccessExpression)
      | OtherExpression text t \<Rightarrow>
          Inl (TranspilerError ''Expected PropertyAccessExpression''
                 ExpectedPropertyAccessExpression))"

definition transpileCallExpression ::
  "callCollaborators \<Rightarrow> TranspilerState \<Rightarrow> callExpression \<Rightarrow> bool
     \<Rightarrow> error + string \<times> TranspilerState" where
  "transpileCallExpression env state node doNotWrapTupleReturn =
     (case call_getExpression node of
        PropertyAccessExpression subExp property expType \<Rightarrow>
          transpilePropertyCallExpression env state node doNotWrapTupleReturn
      | SuperExpression t \<Rightarrow>
          bindE (transpileArguments env state (call_getArguments node)) (\<lambda>(params, state).
            let params = (if length params > 0 then '', '' @ params else params);
                params = ''self'' @ params
            in bindE (getSymbolOrThrow t) (\<lambda>classSym.
                 Inr (sym_getName classSym @ ''.constructor('' @ params @ '')'', state)))
      | OtherExpression text t \<Rightarrow>
          bindE (transpileExpression env state (call_getExpression node)) (\<lambda>(callPath, state).
          bindE (transpileArguments env state (call_getArguments node)) (\<lambda>(params, state).
            Inr (wrapTupleReturn doNotWrapTupleReturn (call_getReturnType node)
                   (callPath @ ''('' @ params @ '')''), state))))"

section \<open>Collaborators of the class lowering\<close>

text \<open>
  The class lowering calls, besides the expression lowering, the reserved-name checks, the
  Roact routines and constants, the method, accessor and constructor lowerings, and the
  state's \<open>getNewId\<close> and \<open>pushExport\<close>. None of them is among the sources; all are
  parameters. The checks take the name (the node they also receive only positions the
  diagnostic).
\<close>

record classCollaborators = callCollaborators +
  checkReserved :: "string \<Rightarrow> error + unit"
  checkMethodReserved :: "string \<Rightarrow> error + unit"
  inheritsFromRoact :: "baseType \<Rightarrow> bool"
  ROACT_COMPONENT_TYPE :: string
  ROACT_PURE_COMPONENT_TYPE :: string
  transpileRoactClassDeclaration ::
    "TranspilerState \<Rightarrow> string \<Rightarrow> string \<Rightarrow> classNode \<Rightarrow> error + string \<times> TranspilerState"
  transpileMethodDeclaration ::
    "TranspilerState \<Rightarrow> classMethod \<Rightarrow> error + string \<times> TranspilerState"
  transpileAccessorDeclaration ::
    "TranspilerState \<Rightarrow> classProperty \<Rightarrow> string \<Rightarrow> error + string \<times> TranspilerState"
  transpileConstructorDeclaration ::
    "TranspilerState \<Rightarrow> string \<Rightarrow> constructorDeclaration option \<Rightarrow> string list \<Rightarrow> bool
       \<Rightarrow> error + string \<times> TranspilerState"
  getNewId :: "TranspilerState \<Rightarrow> string \<times> TranspilerState"
  pushExport :: "TranspilerState \<Rightarrow> string \<Rightarrow> classNode \<Rightarrow> TranspilerState"

section \<open>Class lowering (\<open>transpileClass\<close>)\<close>

definition LUA_RESERVED_METAMETHODS :: "string list" where
  "LUA_RESERVED_METAMETHODS =
     [''__index'', ''__newindex'', ''__add'', ''__sub'', ''__mul'', ''__div'', ''__mod'',
      ''__pow'', ''__unm'', ''__eq'', ''__lt'', ''__le'', ''__call'', ''__concat'',
      ''__tostring'', ''__len'', ''__metatable'', ''__mode'']"

definition LUA_UNDEFINABLE_METAMETHODS :: "string list" where
  "LUA_UNDEFINABLE_METAMETHODS = [''__index'', ''__newindex'', ''__mode'']"

function getClassMethod :: "classNode \<Rightarrow> string \<Rightarrow> classMethod option" where
  "getClassMethod classDec methodName =
     (case class_getMethod classDec methodName of
        Some method \<Rightarrow> Some method
      | None \<Rightarrow>
          (case class_getBaseClass classDec of
             Some baseClass \<Rightarrow>
               (case getClassMethod baseClass methodName of
                  Some baseMethod \<Rightarrow> Some baseMethod
                | None \<Rightarrow> None)
           | None \<Rightarrow> None))"
  by pat_completeness auto
termination
  by (relation "measure (\<lambda>(c, n). size c)") (auto simp add: size_getBaseClass)

definition getConstructor :: "classNode \<Rightarrow> constructorDeclaration option" where
  "getConstructor node =
     (case class_getConstructors node of [] \<Rightarrow> None | ctor # rest \<Rightarrow> Some ctor)"

subsection \<open>Name, export and the Roact special case (lines 66 to 94)\<close>

text \<open>
  \<open>node.getName() || state.getNewId()\<close>, the reserved-name check when there is a name
  node, and \<open>pushExport\<close> for a class declaration.
\<close>

definition classNameStage ::
  "classCollaborators \<Rightarrow> TranspilerState \<Rightarrow> classNode \<Rightarrow> error + string \<times> TranspilerState" where
  "classNameStage env state node =
     (let (name, state) =
            (case class_getName node of
               Some n \<Rightarrow> if n \<noteq> [] then (n, state) else getNewId env state
             | None \<Rightarrow> getNewId env state)
      in bindE (case class_getName node of
                  Some n \<Rightarrow> checkReserved env name
                | None \<Rightarrow> Inr ()) (\<lambda>_.
           Inr (name,
                if class_kind node = ClassDeclaration then pushExport env state name node
                else state)))"

datatype roactOutcome = RoactDelegate string | RoactSubclass | NotRoact

fun roactBaseTypes :: "classCollaborators \<Rightarrow> baseType list \<Rightarrow> roactOutcome" where
  "roactBaseTypes env [] = NotRoact"
| "roactBaseTypes env (baseType # baseTypes) =
     (if prefix (ROACT_COMPONENT_TYPE env) (baseType_getText baseType) then
        RoactDelegate ''Component''
      else if prefix (ROACT_PURE_COMPONENT_TYPE env) (baseType_getText baseType) then
        RoactDelegate ''PureComponent''
      else if inheritsFromRoact env baseType then RoactSubclass
      else roactBaseTypes env baseTypes)"

subsection \<open>Inheritance flags (lines 117 to 140)\<close>

function inheritanceWalk :: "classNode option \<Rightarrow> bool \<Rightarrow> bool \<Rightarrow> bool \<times> bool" where
  "inheritanceWalk None hasStaticInheritance hasInstanceInheritance =
     (hasStaticInheritance, hasInstanceInheritance)"
| "inheritanceWalk (Some currentBaseClass) hasStaticInheritance hasInstanceInheritance =
     inheritanceWalk (class_getBaseClass currentBaseClass)
       (if length (class_getStaticMembers currentBaseClass) > 0
           \<or> length (class_getStaticProperties currentBaseClass) > 0
           \<or> length (class_getStaticMethods currentBaseClass) > 0
        then True else hasStaticInheritance)
       (if length (class_getInstanceMembers currentBaseClass) > 0
           \<or> length (class_getInstanceProperties currentBaseClass) > 0
           \<or> length (class_getInstanceMethods currentBaseClass) > 0
        then True else hasInstanceInheritance)"
  by pat_completeness auto
termination
  by (relation "measure (\<lambda>(c, hs, hi). size_option size c)")
    (auto simp add: size_option_getBaseClass)

definition hasStaticInheritance :: "classNode \<Rightarrow> bool" where
  "hasStaticInheritance node = fst (inheritanceWalk (class_getBaseClass node) False False)"

definition hasInstanceInheritance :: "classNode \<Rightarrow> bool" where
  "hasInstanceInheritance node = snd (inheritanceWalk (class_getBaseClass node) False False)"

subsection \<open>The loops over members\<close>

text \<open>
  The static methods with a body (line 166): the indentation is read before the method is
  lowered.
\<close>

fun staticMethodsLoop ::
  "classCollaborators \<Rightarrow> TranspilerState \<Rightarrow> classMethod list
     \<Rightarrow> error + string \<times> TranspilerState" where
  "staticMethodsLoop env state [] = Inr ([], state)"
| "staticMethodsLoop env state (method # methods) =
     bindE (transpileMethodDeclaration env state method) (\<lambda>(lowered, state').
     bindE (staticMethodsLoop env state' methods) (\<lambda>(rest, state'').
       Inr (indent state @ lowered @ rest, state'')))"

text \<open>The instance methods with a body (line 214).\<close>

fun instanceMethodsLoop ::
  "classCollaborators \<Rightarrow> TranspilerState \<Rightarrow> classMethod list
     \<Rightarrow> error + string \<times> TranspilerState" where
  "instanceMethodsLoop env state [] = Inr ([], state)"
| "instanceMethodsLoop env state (method # methods) =
     bindE (transpileMethodDeclaration env state method) (\<lambda>(lowered, state').
     bindE (instanceMethodsLoop env state' methods) (\<lambda>(rest, state'').
       Inr (lowered @ rest, state'')))"

text \<open>The field initializers of the instance properties (lines 193 to 205).\<close>

fun instancePropsLoop ::
  "classCollaborators \<Rightarrow> TranspilerState \<Rightarrow> classProperty list
     \<Rightarrow> error + string list \<times> TranspilerState" where
  "instancePropsLoop env state [] = Inr ([], state)"
| "instancePropsLoop env state (prop # props) =
     (let propName = prop_getName prop in
      if propName \<noteq> [] then
        bindE (checkMethodReserved env propName) (\<lambda>_.
        bindE (if prop_isInitializerExpressionable prop then
                 (case prop_getInitializer prop of
                    Some initializer \<Rightarrow>
                      bindE (transpileExpression env state initializer) (\<lambda>(lowered, state').
                        Inr ([''self.'' @ propName @ '' = '' @ lowered @ '';\<newline>''], state'))
                  | None \<Rightarrow> Inr ([], state))
               else Inr ([], state)) (\<lambda>(pushed, state').
        bindE (instancePropsLoop env state' props) (\<lambda>(rest, state'').
          Inr (pushed @ rest, state''))))
      else instancePropsLoop env state props)"

text \<open>The static properties (lines 254 to 266).\<close>

fun staticPropsLoop ::
  "classCollaborators \<Rightarrow> string \<Rightarrow> TranspilerState \<Rightarrow> classProperty list
     \<Rightarrow> error + string \<times> TranspilerState" where
  "staticPropsLoop env classId state [] = Inr ([], state)"
| "staticPropsLoop env classId state (prop # props) =
     (let propName = prop_getName prop in
      bindE (checkMethodReserved env propName) (\<lambda>_.
      bindE (if prop_isInitializerExpressionable prop then
               (case prop_getInitializer prop of
                  Some initializer \<Rightarrow> transpileExpression env state initializer
                | None \<Rightarrow> Inr (''nil'', state))
             else Inr (''nil'', state)) (\<lambda>(propValue, state').
      bindE (staticPropsLoop env classId state' props) (\<lambda>(rest, state'').
        Inr (indent state' @ classId @ ''.'' @ propName @ '' = '' @ propValue @ '';\<newline>'' @ rest,
             state'')))))"

text \<open>The accessors of one kind (lines 289 to 291 and 340 to 342).\<close>

fun accessorsLoop ::
  "classCollaborators \<Rightarrow> TranspilerState \<Rightarrow> classProperty list
     \<Rightarrow> error + string \<times> TranspilerState" where
  "accessorsLoop env state [] = Inr ([], state)"
| "accessorsLoop env state (accessor # accessors) =
     bindE (transpileAccessorDeclaration env state accessor (prop_getName accessor))
       (\<lambda>(lowered, state').
     bindE (accessorsLoop env state' accessors) (\<lambda>(rest, state'').
       Inr (lowered @ rest, state'')))"

text \<open>
  Whether an ancestor declares an accessor of the given kind (lines 271 to 283 and 323
  to 335): the loop climbs from the class and stops at the first ancestor with one.
\<close>

function ancestorHasAccessor :: "propertyKind \<Rightarrow> classNode \<Rightarrow> bool" where
  "ancestorHasAccessor kind ancestorClass =
     (case class_getBaseClass ancestorClass of
        None \<Rightarrow> False
      | Some baseClass \<Rightarrow>
          if length (filter (\<lambda>prop. prop_kind prop = kind)
                       (class_getInstanceProperties baseClass)) > 0
          then True
          else ancestorHasAccessor kind baseClass)"
  by pat_completeness auto
termination
  by (relation "measure (\<lambda>(k, c). size c)") (auto simp add: size_getBaseClass)

subsection \<open>The pieces of the output\<close>

text \<open>
  The source appends every emitted piece to one string, \<open>result\<close>. The model keeps the
  pieces apart, in a record with one field per block of the source, and \<open>renderClass\<close>
  concatenates them in the order in which the source appends them. \<open>classTables\<close> holds
  the pieces of lines 96 to 223, \<open>classParts\<close> adds those of lines 225 to 375.
\<close>

record classTables =
  part_header :: string
  part_superAlias :: string
  part_staticOpen :: string
  part_staticMethods :: string
  part_staticClose :: string
  part_instanceOpen :: string
  part_instanceMethods :: string
  part_instanceClose :: string

record classParts = classTables +
  part_metamethods :: string
  part_newFactory :: string
  part_constructor :: string
  part_staticProperties :: string
  part_getters :: string
  part_setters :: string
  part_footer :: string

definition renderClass :: "classParts \<Rightarrow> string" where
  "renderClass parts =
     part_header parts @ part_superAlias parts
     @ part_staticOpen parts @ part_staticMethods parts @ part_staticClose parts
     @ part_instanceOpen parts @ part_instanceMethods parts @ part_instanceClose parts
     @ part_metamethods parts @ part_newFactory parts @ part_constructor parts
     @ part_staticProperties parts @ part_getters parts @ part_setters parts
     @ part_footer parts"

subsection \<open>Block header, \<open>super\<close> alias, static and instance table (lines 96 to 223)\<close>

text \<open>
  \<open>state.hoistStack[state.hoistStack.length - 1].add(name)\<close>. On an empty stack the
  element is \<open>undefined\<close> and the call raises the host's \<open>TypeError\<close>; the error
  carries the name of that exception, the wording of its message is the host's.
\<close>

definition hoistName :: "TranspilerState \<Rightarrow> string \<Rightarrow> error + TranspilerState" where
  "hoistName state name =
     (case hoistStack state of
        [] \<Rightarrow> Inl (ThrownError ''TypeError'')
      | scope # scopes \<Rightarrow>
          Inr (state\<lparr>hoistStack :=
                 (hoistStack state)[length (hoistStack state) - 1 :=
                    insert name (last (hoistStack state))]\<rparr>))"

definition classTablesStage ::
  "classCollaborators \<Rightarrow> TranspilerState \<Rightarrow> string \<Rightarrow> classNode
     \<Rightarrow> error + (classTables \<times> string list) \<times> TranspilerState" where
  "classTablesStage env state name node =
     (let isExpression = (class_kind node = ClassExpression) in
      bindE (if isExpression then Inr (''(function()\<newline>'', state)
             else bindE (hoistName state name) (\<lambda>state'.
                    Inr (indent state @ ''do\<newline>'', state'))) (\<lambda>(header, state).
      let state = pushIndent state in
      bindE (case class_getExtendsTypeNodes node of
               Some (typeNode # typeNodes) \<Rightarrow> transpileExpression env state typeNode
             | Some [] \<Rightarrow> Inr ([], state)
             | None \<Rightarrow> Inr ([], state)) (\<lambda>(baseClassName, state).
      let classId = name;
          superAlias =
            (if hasStaticInheritance node \<or> hasInstanceInheritance node
             then indent state @ ''local super = '' @ baseClassName @ '';\<newline>'' else []);
          declPrefix = (if isExpression then ''local '' else []);
          staticOpen =
            (if hasStaticInheritance node
             then indent state @ declPrefix @ classId @ '' = setmetatable({''
             else indent state @ declPrefix @ classId @ '' = {'');
          state = pushIndent state;
          staticMethods = filter method_hasBody (class_getStaticMethods node);
          hasStaticMembers = (staticMethods \<noteq> [])
      in
      bindE (staticMethodsLoop env state staticMethods) (\<lambda>(staticLowered, state).
      let state = popIndent state;
          staticClose =
            (if hasStaticInheritance node
             then (if hasStaticMembers then indent state else []) @ ''}, {__index = super});\<newline>''
             else (if hasStaticMembers then indent state else []) @ ''};\<newline>'');
          instanceOpen =
            (if hasInstanceInheritance node
             then indent state @ classId @ ''.__index = setmetatable({''
             else indent state @ classId @ ''.__index = {'');
          state = pushIndent state;
          instanceProps =
            filter (\<lambda>prop. prop_kind prop \<noteq> SetAccessorDeclaration)
              (filter (\<lambda>prop. prop_kind prop \<noteq> GetAccessorDeclaration)
                 (filter prop_parentIsNode (class_getInstanceProperties node)))
      in
      bindE (instancePropsLoop env state instanceProps) (\<lambda>(extraInitializers, state).
      let instanceMethods = filter method_hasBody (class_getInstanceMethods node);
          hasIndexMembers = (instanceMethods \<noteq> [])
      in
      bindE (instanceMethodsLoop env state instanceMethods) (\<lambda>(instanceLowered, state).
      let state = popIndent state;
          instanceClose =
            (if hasInstanceInheritance node
             then (if hasIndexMembers then indent state else []) @ ''}, super);\<newline>''
             else (if hasIndexMembers then indent state else []) @ ''};\<newline>'')
      in
      Inr ((\<lparr>part_header = header,
              part_superAlias = superAlias,
              part_staticOpen = staticOpen,
              part_staticMethods = (if hasStaticMembers then ''\<newline>'' else []) @ staticLowered,
              part_staticClose = staticClose,
              part_instanceOpen = instanceOpen,
              part_instanceMethods = (if hasIndexMembers then ''\<newline>'' else []) @ instanceLowered,
              part_instanceClose = instanceClose\<rparr>,
            extraInitializers), state)))))))"

subsection \<open>Metamethod trampolines (lines 225 to 236)\<close>

definition undefinableMetamethodError :: "string \<Rightarrow> error" where
  "undefinableMetamethodError metamethod =
     TranspilerError
       (''Cannot use undefinable Lua metamethod as identifier '' @ [CHR 0x27] @ metamethod
          @ [CHR 0x27] @ '' for a class'')
       UndefinableMetamethod"

definition trampoline :: "string \<Rightarrow> string \<Rightarrow> string \<Rightarrow> string" where
  "trampoline ind classId metamethod =
     ind @ classId @ ''.'' @ metamethod @ '' = function(self, ...) return self:'' @ metamethod
       @ ''(...); end;\<newline>''"

fun metamethodsLoop :: "classNode \<Rightarrow> string \<Rightarrow> string \<Rightarrow> string list \<Rightarrow> error + string" where
  "metamethodsLoop node classId ind [] = Inr []"
| "metamethodsLoop node classId ind (metamethod # metamethods) =
     (case getClassMethod node metamethod of
        Some method \<Rightarrow>
          if metamethod \<in> set LUA_UNDEFINABLE_METAMETHODS then
            Inl (undefinableMetamethodError metamethod)
          else
            bindE (metamethodsLoop node classId ind metamethods) (\<lambda>rest.
              Inr (trampoline ind classId metamethod @ rest))
      | None \<Rightarrow> metamethodsLoop node classId ind metamethods)"

subsection \<open>The \<open>new\<close> factory (lines 238 to 244)\<close>

definition newFactoryStage :: "TranspilerState \<Rightarrow> string \<Rightarrow> classNode \<Rightarrow> string \<times> TranspilerState" where
  "newFactoryStage state classId node =
     (if \<not> class_isAbstract node then
        let line1 = indent state @ classId @ ''.new = function(...)\<newline>'';
            state = pushIndent state;
            line2 = indent state @ ''return '' @ classId @ ''.constructor(setmetatable({}, '' @ classId
                      @ ''), ...);\<newline>'';
            state = popIndent state;
            line3 = indent state @ ''end;\<newline>''
        in (line1 @ line2 @ line3, state)
      else ([], state))"

subsection \<open>Accessor tables and the \<open>__index\<close> and \<open>__newindex\<close> functions (lines 268 to 368)\<close>

definition indexFunction :: "TranspilerState \<Rightarrow> string \<Rightarrow> string \<times> TranspilerState" where
  "indexFunction state classId =
     (let l1 = indent state @ ''local __index = '' @ classId @ ''.__index;\<newline>'';
          l2 = indent state @ classId @ ''.__index = function(self, index)\<newline>'';
          state = pushIndent state;
          l3 = indent state @ ''local getter = '' @ classId @ ''._getters[index];\<newline>'';
          l4 = indent state @ ''if getter then\<newline>'';
          state = pushIndent state;
          l5 = indent state @ ''return getter(self);\<newline>'';
          state = popIndent state;
          l6 = indent state @ ''else\<newline>'';
          state = pushIndent state;
          l7 = indent state @ ''return __index[index];\<newline>'';
          state = popIndent state;
          l8 = indent state @ ''end;\<newline>'';
          state = popIndent state;
          l9 = indent state @ ''end;\<newline>''
      in (l1 @ l2 @ l3 @ l4 @ l5 @ l6 @ l7 @ l8 @ l9, state))"

definition newindexFunction :: "TranspilerState \<Rightarrow> string \<Rightarrow> string \<times> TranspilerState" where
  "newindexFunction state classId =
     (let l1 = indent state @ classId @ ''.__newindex = function(self, index, value)\<newline>'';
          state = pushIndent state;
          l2 = indent state @ ''local setter = '' @ classId @ ''._setters[index];\<newline>'';
          l3 = indent state @ ''if setter then\<newline>'';
          state = pushIndent state;
          l4 = indent state @ ''setter(self, value);\<newline>'';
          state = popIndent state;
          l5 = indent state @ ''else\<newline>'';
          state = pushIndent state;
          l6 = indent state @ ''rawset(self, index, value);\<newline>'';
          state = popIndent state;
          l7 = indent state @ ''end;\<newline>'';
          state = popIndent state;
          l8 = indent state @ ''end;\<newline>''
      in (l1 @ l2 @ l3 @ l4 @ l5 @ l6 @ l7 @ l8, state))"

text \<open>
  The assignment of the accessor table \<open>_getters\<close> or \<open>_setters\<close> (lines 286 to 302 and
  337 to 353); \<open>own\<close> are the accessors the class declares itself.
\<close>

definition accessorTable ::
  "classCollaborators \<Rightarrow> string \<Rightarrow> string \<Rightarrow> TranspilerState \<Rightarrow> classProperty list \<Rightarrow> bool
     \<Rightarrow> error + string \<times> TranspilerState" where
  "accessorTable env classId tableName state own ancestorHas =
     (if length own > 0 then
        bindE (accessorsLoop env (pushIndent state) own) (\<lambda>(lowered, state).
          let state = popIndent state;
              content = ''\<newline>'' @ lowered @ indent state
          in if ancestorHas then
               Inr (indent state @ classId @ ''.'' @ tableName @ '' = setmetatable({'' @ content
                      @ ''}, { __index = super.'' @ tableName @ '' });\<newline>'', state)
             else
               Inr (indent state @ classId @ ''.'' @ tableName @ '' = {'' @ content @ ''};\<newline>'',
                    state))
      else
        Inr (indent state @ classId @ ''.'' @ tableName @ '' = super.'' @ tableName @ '';\<newline>'',
             state))"

definition gettersStage ::
  "classCollaborators \<Rightarrow> string \<Rightarrow> TranspilerState \<Rightarrow> classNode
     \<Rightarrow> error + string \<times> TranspilerState" where
  "gettersStage env classId state node =
     (let getters = filter (\<lambda>prop. prop_kind prop = GetAccessorDeclaration)
                      (class_getInstanceProperties node);
          ancestorHasGetters = ancestorHasAccessor GetAccessorDeclaration node
      in if length getters > 0 \<or> ancestorHasGetters then
           bindE (accessorTable env classId ''_getters'' state getters ancestorHasGetters)
             (\<lambda>(table, state).
               let (handler, state) = indexFunction state classId
               in Inr (table @ handler, state))
         else Inr ([], state))"

definition settersStage ::
  "classCollaborators \<Rightarrow> string \<Rightarrow> TranspilerState \<Rightarrow> classNode
     \<Rightarrow> error + string \<times> TranspilerState" where
  "settersStage env classId state node =
     (let setters = filter (\<lambda>prop. prop_kind prop = SetAccessorDeclaration)
                      (class_getInstanceProperties node);
          ancestorHasSetters = ancestorHasAccessor SetAccessorDeclaration node
      in if length setters > 0 \<or> ancestorHasSetters then
           bindE (accessorTable env classId ''_setters'' state setters ancestorHasSetters)
             (\<lambda>(table, state).
               let (handler, state) = newindexFunction state classId
               in Inr (table @ handler, state))
         else Inr ([], state))"

subsection \<open>The whole class (lines 65 to 378)\<close>

definition transpileClassBody ::
  "classCollaborators \<Rightarrow> TranspilerState \<Rightarrow> string \<Rightarrow> classNode
     \<Rightarrow> error + classParts \<times> TranspilerState" where
  "transpileClassBody env state name node =
     bindE (classTablesStage env state name node) (\<lambda>((tables, extraInitializers), state).
     let classId = name in
     bindE (metamethodsLoop node classId (indent state) LUA_RESERVED_METAMETHODS) (\<lambda>metamethods.
     let (newFactory, state) = newFactoryStage state classId node in
     bindE (transpileConstructorDeclaration env state classId (getConstructor node)
              extraInitializers (hasInstanceInheritance node)) (\<lambda>(constructor, state).
     bindE (staticPropsLoop env classId state (class_getStaticProperties node))
       (\<lambda>(staticProperties, state).
     bindE (gettersStage env classId state node) (\<lambda>(getters, state).
     bindE (settersStage env classId state node) (\<lambda>(setters, state).
     let state = popIndent state;
         footer = (if class_kind node = ClassExpression then indent state @ ''end)()''
                   else indent state @ ''end;\<newline>'')
     in Inr (\<lparr>part_header = part_header tables,
               part_superAlias = part_superAlias tables,
               part_staticOpen = part_staticOpen tables,
               part_staticMethods = part_staticMethods tables,
               part_staticClose = part_staticClose tables,
               part_instanceOpen = part_instanceOpen tables,
               part_instanceMethods = part_instanceMethods tables,
               part_instanceClose = part_instanceClose tables,
               part_metamethods = metamethods,
               part_newFactory = newFactory,
               part_constructor = constructor,
               part_staticProperties = staticProperties,
               part_getters = getters,
               part_setters = setters,
               part_footer = footer\<rparr>, state)))))))"

definition transpileClass ::
  "classCollaborators \<Rightarrow> TranspilerState \<Rightarrow> classNode \<Rightarrow> error + string \<times> TranspilerState" where
  "transpileClass env state node =
     bindE (classNameStage env state node) (\<lambda>(name, state).
       case roactBaseTypes env (class_getBaseTypes node) of
         RoactDelegate kind \<Rightarrow> transpileRoactClassDeclaration env state kind name node
       | RoactSubclass \<Rightarrow>
           Inl (TranspilerError ''Derived Classes are not supported in Roact!''
                  RoactSubClassesNotSupported)
       | NotRoact \<Rightarrow>
           bindE (transpileClassBody env state name node) (\<lambda>(parts, state).
             Inr (renderClass parts, state)))"

section \<open>Source-file wrapper (\<open>src/transpiler/sourceFile.ts\<close>)\<close>

text \<open>
  The lowering of the statements of the file and the two classifications of a script are
  not among the sources; they are parameters.
\<close>

record sourceFileCollaborators =
  transpileStatementedNode ::
    "TranspilerState \<Rightarrow> sourceFile \<Rightarrow> error + string \<times> TranspilerState"
  getScriptContext :: "sourceFile \<Rightarrow> ScriptContext"
  getScriptType :: "sourceFile \<Rightarrow> ScriptType"

definition IMP_STR :: string where
  "IMP_STR =
     ''local TS = require(\<newline>''
     @ [CHR 0x09] @ ''game:GetService('' @ [CHR 0x22] @ ''ReplicatedStorage'' @ [CHR 0x22]
     @ '')\<newline>''
     @ [CHR 0x09, CHR 0x09] @ '':WaitForChild('' @ [CHR 0x22] @ ''RobloxTS'' @ [CHR 0x22]
     @ '')\<newline>''
     @ [CHR 0x09, CHR 0x09] @ '':WaitForChild('' @ [CHR 0x22] @ ''Include'' @ [CHR 0x22]
     @ '')\<newline>''
     @ [CHR 0x09, CHR 0x09] @ '':WaitForChild('' @ [CHR 0x22] @ ''RuntimeLib'' @ [CHR 0x22]
     @ '')\<newline>''
     @ '');\<newline>''"

definition multipleExportEqualsError :: error where
  "multipleExportEqualsError =
     TranspilerError
       (''ModuleScript contains multiple ExportEquals. You can only do '' @ [CHR 0x60]
          @ ''export = '' @ [CHR 0x60] @ '' once.'')
       MultipleExportEquals"

text \<open>
  The loop over the export assignments of the file (lines 29 to 41). The flag
  \<open>hasExportEquals\<close> is tested before the current node is looked at.
\<close>

fun exportEqualsLoop :: "exportAssignment list \<Rightarrow> bool \<Rightarrow> error + bool" where
  "exportEqualsLoop [] hasExportEquals = Inr hasExportEquals"
| "exportEqualsLoop (descendant # descendants) hasExportEquals =
     (if hasExportEquals then Inl multipleExportEqualsError
      else exportEqualsLoop descendants
             (if isExportEquals descendant then True else hasExportEquals))"

definition transpileSourceFile ::
  "sourceFileCollaborators \<Rightarrow> TranspilerState \<Rightarrow> sourceFile
     \<Rightarrow> error + string \<times> TranspilerState" where
  "transpileSourceFile env state node =
     (let state = state\<lparr>scriptContext := getScriptContext env node\<rparr>;
          scriptType = getScriptType env node
      in
      bindE (transpileStatementedNode env state node) (\<lambda>(result, state).
      bindE (if isModule state then
               (if scriptType \<noteq> Module then
                  Inl (TranspilerError ''Attempted to export in a non-ModuleScript!''
                         ExportInNonModuleScript)
                else
                  bindE (exportEqualsLoop (file_getExportAssignments node) False)
                    (\<lambda>hasExportEquals.
                      let result =
                            (if hasExportEquals
                             then indent state @ ''local _exports;\<newline>'' @ result
                             else indent state @ ''local _exports = {};\<newline>'' @ result)
                      in Inr (result @ indent state @ ''return _exports;\<newline>'')))
             else
               (if scriptType = Module
                then Inr (result @ indent state @ ''return nil;\<newline>'')
                else Inr result)) (\<lambda>result.
        Inr (if usesTSLibrary state then indent state @ IMP_STR @ result else result,
             state))))"

section \<open>Notions used by the properties\<close>

text \<open>
  The ancestors of a class, nearest first: its base class, the base class of that, and so
  on. The loops of the class lowering that climb the chain of base classes visit exactly
  these classes.
\<close>

function ancestorChain :: "classNode \<Rightarrow> classNode list" where
  "ancestorChain node =
     (case class_getBaseClass node of
        None \<Rightarrow> []
      | Some baseClass \<Rightarrow> baseClass # ancestorChain baseClass)"
  by pat_completeness auto
termination
  by (relation "measure size") (auto simp add: size_getBaseClass)



definition declaresAccessor :: "propertyKind \<Rightarrow> classNode \<Rightarrow> bool" where
  "declaresAccessor kind c =
     list_ex (\<lambda>prop. prop_kind prop = kind) (class_getInstanceProperties c)"

section \<open>Example inputs\<close>

text \<open>
  A concrete instance of the collaborators, for evaluating the lowering on examples: the
  API check accepts everything, an expression lowers to its source text and an argument
  list to the lowered arguments separated by commas.
\<close>

fun exampleText :: "expression \<Rightarrow> string" where
  "exampleText (OtherExpression text t) = text"
| "exampleText (SuperExpression t) = ''super''"
| "exampleText (PropertyAccessExpression subExp property t) = exampleText subExp @ ''.'' @ property"

fun joinComma :: "string list \<Rightarrow> string" where
  "joinComma [] = []"
| "joinComma [x] = x"
| "joinComma (x # y # ys) = x @ '', '' @ joinComma (y # ys)"

definition exampleCallEnv :: callCollaborators where
  "exampleCallEnv =
     \<lparr>validateApiAccess = (\<lambda>state name. Inr state),
      transpileExpression = (\<lambda>state e. Inr (exampleText e, state)),
      transpileArguments = (\<lambda>state es. Inr (joinComma (map exampleText es), state))\<rparr>"

definition exampleState :: TranspilerState where
  "exampleState =
     \<lparr>indent = [], hoistStack = [{}], exportRegistry = [], idCounter = 0,
      usesTSLibrary = False, isModule = False, scriptContext = ScriptContext ''Server''\<rparr>"

definition plainType :: tsType where
  "plainType =
     \<lparr>isArrayType = False, isTupleType = False, isString = False, isStringLiteral = False,
      getSymbol = None\<rparr>"

definition namedType :: "string \<Rightarrow> declarationKind list \<Rightarrow> tsType" where
  "namedType name decls =
     plainType\<lparr>getSymbol :=
       Some \<lparr>sym_getEscapedName = name, sym_getName = name, sym_getDeclarations = decls\<rparr>\<rparr>"

definition arrayType :: tsType where
  "arrayType = (namedType ''Array'' [OtherDeclaration])\<lparr>isArrayType := True\<rparr>"

definition methodType :: tsType where
  "methodType = namedType ''method'' [MethodSignature]"

text \<open>The call \<open>arr.map(f)\<close> on an array \<open>arr\<close>, in expression position.\<close>

definition arrMapCall :: callExpression where
  "arrMapCall =
     \<lparr>call_getExpression =
        PropertyAccessExpression (OtherExpression ''arr'' arrayType) ''map'' methodType,
      call_getArguments = [OtherExpression ''f'' plainType],
      call_getReturnType = arrayType,
      call_parentIsExpressionStatement = False\<rparr>"

text \<open>
  Example calls: \<open>Object.keys(o)\<close>, \<open>v.add(w)\<close> on a \<open>Vector3\<close> (as an expression and as
  a statement), \<open>super(a, b)\<close> and \<open>super.member(k, v)\<close> in a class derived from the named
  base, and a plain call \<open>f(x)\<close> with a tuple return type.
\<close>

definition objectKeysCall :: callExpression where
  "objectKeysCall =
     \<lparr>call_getExpression =
        PropertyAccessExpression
          (OtherExpression ''Object'' (namedType ''ObjectConstructor'' [OtherDeclaration]))
          ''keys'' methodType,
      call_getArguments = [OtherExpression ''o'' plainType],
      call_getReturnType = arrayType,
      call_parentIsExpressionStatement = False\<rparr>"

definition vectorAddCall :: "bool \<Rightarrow> callExpression" where
  "vectorAddCall asStatement =
     \<lparr>call_getExpression =
        PropertyAccessExpression
          (OtherExpression ''v'' (namedType ''Vector3'' [OtherDeclaration]))
          ''add'' methodType,
      call_getArguments = [OtherExpression ''w'' (namedType ''Vector3'' [OtherDeclaration])],
      call_getReturnType = namedType ''Vector3'' [OtherDeclaration],
      call_parentIsExpressionStatement = asStatement\<rparr>"

definition superCall :: callExpression where
  "superCall =
     \<lparr>call_getExpression = SuperExpression (namedType ''Animal'' [OtherDeclaration]),
      call_getArguments = [OtherExpression ''a'' plainType, OtherExpression ''b'' plainType],
      call_getReturnType = plainType,
      call_parentIsExpressionStatement = True\<rparr>"

definition superMemberCall :: "string \<Rightarrow> string \<Rightarrow> callExpression" where
  "superMemberCall baseName member =
     \<lparr>call_getExpression =
        PropertyAccessExpression (SuperExpression (namedType baseName [OtherDeclaration]))
          member methodType,
      call_getArguments = [OtherExpression ''k'' plainType, OtherExpression ''v'' plainType],
      call_getReturnType = plainType,
      call_parentIsExpressionStatement = False\<rparr>"

definition tupleCall :: callExpression where
  "tupleCall =
     \<lparr>call_getExpression = OtherExpression ''f'' plainType,
      call_getArguments = [OtherExpression ''x'' plainType],
      call_getReturnType = plainType\<lparr>isTupleType := True\<rparr>,
      call_parentIsExpressionStatement = False\<rparr>"

text \<open>
  A member call \<open>obj.pair(x)\<close> with a tuple return type on a receiver that no macro
  matches; \<open>pair\<close> is a method when \<open>asMethod\<close> holds and a field otherwise.
\<close>

definition tupleMemberCall :: "bool \<Rightarrow> callExpression" where
  "tupleMemberCall asMethod =
     \<lparr>call_getExpression =
        PropertyAccessExpression
          (OtherExpression ''obj'' (namedType ''Pairs'' [OtherDeclaration]))
          ''pair'' (if asMethod then methodType else plainType),
      call_getArguments = [OtherExpression ''x'' plainType],
      call_getReturnType = plainType\<lparr>isTupleType := True\<rparr>,
      call_parentIsExpressionStatement = False\<rparr>"

text \<open>
  Collaborators for the class examples: no name is reserved, no class is a Roact
  component, and the method, accessor and constructor lowerings emit one line each.
\<close>

definition exampleClassEnv :: classCollaborators where
  "exampleClassEnv =
     \<lparr>validateApiAccess = (\<lambda>state name. Inr state),
      transpileExpression = (\<lambda>state e. Inr (exampleText e, state)),
      transpileArguments = (\<lambda>state es. Inr (joinComma (map exampleText es), state)),
      checkReserved = (\<lambda>name. Inr ()),
      checkMethodReserved = (\<lambda>name. Inr ()),
      inheritsFromRoact = (\<lambda>baseType. False),
      ROACT_COMPONENT_TYPE = ''Roact.Component'',
      ROACT_PURE_COMPONENT_TYPE = ''Roact.PureComponent'',
      transpileRoactClassDeclaration = (\<lambda>state kind name node. Inr (''-- Roact'', state)),
      transpileMethodDeclaration =
        (\<lambda>state method.
           Inr (indent state @ method_getName method @ '' = function(self) end;\<newline>'', state)),
      transpileAccessorDeclaration =
        (\<lambda>state accessor name.
           Inr (indent state @ name @ '' = function(self) end,\<newline>'', state)),
      transpileConstructorDeclaration =
        (\<lambda>state name ctor extraInitializers hasInstanceInheritance.
           Inr (indent state @ name @ ''.constructor = function(self, ...) ''
                  @ concat extraInitializers @ ''return self; end;\<newline>'', state)),
      getNewId = (\<lambda>state. (''_0'', state\<lparr>idCounter := Suc (idCounter state)\<rparr>)),
      pushExport = (\<lambda>state name node. state)\<rparr>"

definition exampleMethod :: "string \<Rightarrow> classMethod" where
  "exampleMethod name = \<lparr>method_getName = name, method_hasBody = True\<rparr>"

definition exampleProperty ::
  "string \<Rightarrow> propertyKind \<Rightarrow> expression option \<Rightarrow> classProperty" where
  "exampleProperty name kind initializer =
     \<lparr>prop_getName = name, prop_kind = kind, prop_parentIsNode = True,
      prop_isInitializerExpressionable = (kind = PropertyDeclaration),
      prop_getInitializer = initializer\<rparr>"

text \<open>
  \<open>class Animal { legs = 4; get kind() {...}; set kind(v) {...}; speak() {...} }\<close>,
  \<open>class Dog extends Animal {}\<close>, \<open>abstract class Shape {}\<close>, a class with the
  metamethod \<open>__add\<close> and a class with the metamethods \<open>__add\<close> and \<open>__index\<close>.
\<close>

definition animalClass :: classNode where
  "animalClass =
     ClassNode ClassDeclaration (Some ''Animal'') False [] None None
       [] [] []
       [PropertyMember (exampleProperty ''legs'' PropertyDeclaration (Some (OtherExpression ''4'' plainType))),
        PropertyMember (exampleProperty ''kind'' GetAccessorDeclaration None),
        PropertyMember (exampleProperty ''kind'' SetAccessorDeclaration None),
        MethodMember (exampleMethod ''speak'')]
       [exampleProperty ''legs'' PropertyDeclaration (Some (OtherExpression ''4'' plainType)),
        exampleProperty ''kind'' GetAccessorDeclaration None,
        exampleProperty ''kind'' SetAccessorDeclaration None]
       [exampleMethod ''speak'']
       [exampleMethod ''speak'']
       []"

definition dogClass :: classNode where
  "dogClass =
     ClassNode ClassDeclaration (Some ''Dog'') False
       [\<lparr>baseType_getText = ''Animal''\<rparr>]
       (Some [OtherExpression ''Animal'' plainType])
       (Some animalClass)
       [] [] [] [] [] [] [] []"

definition shapeClass :: classNode where
  "shapeClass =
     ClassNode ClassDeclaration (Some ''Shape'') True [] None None [] [] [] [] [] [] [] []"

definition vectorClass :: classNode where
  "vectorClass =
     ClassNode ClassDeclaration (Some ''Vec'') False [] None None
       [] [] [] [MethodMember (exampleMethod ''__add'')] [] [exampleMethod ''__add''] [exampleMethod ''__add''] []"

definition badClass :: classNode where
  "badClass =
     ClassNode ClassDeclaration (Some ''Bad'') False [] None None
       [] [] []
       [MethodMember (exampleMethod ''__add''), MethodMember (exampleMethod ''__index'')] []
       [exampleMethod ''__add'', exampleMethod ''__index'']
       [exampleMethod ''__add'', exampleMethod ''__index''] []"

text \<open>
  \<open>class Base { static make() {...} }\<close> and \<open>class Derived extends Base {}\<close>.
\<close>

definition baseClass :: classNode where
  "baseClass =
     ClassNode ClassDeclaration (Some ''Base'') False [] None None
       [MethodMember (exampleMethod ''make'')] [] [exampleMethod ''make'']
       [] [] []
       [exampleMethod ''make''] []"

definition derivedClass :: classNode where
  "derivedClass =
     ClassNode ClassDeclaration (Some ''Derived'') False
       [\<lparr>baseType_getText = ''Base''\<rparr>]
       (Some [OtherExpression ''Base'' plainType])
       (Some baseClass)
       [] [] [] [] [] [] [] []"

text \<open>
  Source files: the lowered body is the text of the file, and the file is a module when
  it has an export assignment. The example files hold \<open>export = a; export = b\<close>, and
  \<open>export = a; export default b\<close>.
\<close>

definition exampleFileEnv :: sourceFileCollaborators where
  "exampleFileEnv =
     \<lparr>transpileStatementedNode =
        (\<lambda>state node.
           Inr (file_getText node,
                state\<lparr>isModule := (file_getExportAssignments node \<noteq> [])\<rparr>)),
      getScriptContext = (\<lambda>node. ScriptContext ''Server''),
      getScriptType = (\<lambda>node. Module)\<rparr>"

definition twoExportEqualsFile :: sourceFile where
  "twoExportEqualsFile =
     \<lparr>file_getText = ''_exports = a;\<newline>_exports = b;\<newline>'',
      file_getExportAssignments = [\<lparr>isExportEquals = True\<rparr>, \<lparr>isExportEquals = True\<rparr>]\<rparr>"

definition exportEqualsThenDefaultFile :: sourceFile where
  "exportEqualsThenDefaultFile =
     \<lparr>file_getText = ''_exports = a;\<newline>_exports._default = b;\<newline>'',
      file_getExportAssignments = [\<lparr>isExportEquals = True\<rparr>, \<lparr>isExportEquals = False\<rparr>]\<rparr>"

section \<open>Properties of the call lowering\<close>

lemma bindE_Inr [simp]: "bindE (Inr x) f = f x"
  by (simp add: bindE_def)

lemma bindE_Inl [simp]: "bindE (Inl e) f = Inl e"
  by (simp add: bindE_def)

text \<open>
  Claim C5. A member call whose receiver has an array type lowers to the runtime-library
  call \<open>TS.array_<member>(<receiver>[, <args>])\<close>: the lowered receiver comes first, the
  lowered arguments follow when there are any, and the state that results has the
  runtime-library flag set. The collaborators (API check, receiver and argument
  lowering) are assumed to return; their errors would propagate unchanged.
\<close>

theorem array_member_call:
  assumes "call_getExpression node = PropertyAccessExpression subExp property expType"
    and "isArrayType (getType subExp)"
    and "validateApiAccess env state property = Inr state1"
    and "transpileExpression env state1 subExp = Inr (accessPath, state2)"
    and "transpileArguments env state2 (call_getArguments node) = Inr (params, state3)"
  shows "transpileCallExpression env state node doNotWrapTupleReturn =
           Inr (''TS.array_'' @ property @ ''('' @ accessPath
                  @ (if params = [] then [] else '', '' @ params) @ '')'',
                state3\<lparr>usesTSLibrary := True\<rparr>)
         \<and> usesTSLibrary (state3\<lparr>usesTSLibrary := True\<rparr>)"
  using assms
  by (simp add: transpileCallExpression_def transpilePropertyCallExpression_def paramStr_def)

theorem array_member_call_witness:
  "transpileCallExpression exampleCallEnv exampleState arrMapCall False =
     Inr (''TS.array_map(arr, f)'', exampleState\<lparr>usesTSLibrary := True\<rparr>)"
  using array_member_call [of arrMapCall "OtherExpression ''arr'' arrayType" "''map''"
      methodType exampleCallEnv exampleState exampleState "''arr''" exampleState "''f''"
      exampleState False]
  by (simp add: arrMapCall_def exampleCallEnv_def arrayType_def)

lemma namedTypeMacro_ObjectConstructor:
  assumes "getSymbol t = Some tsym" and "sym_getEscapedName tsym = ''ObjectConstructor''"
  shows "namedTypeMacro node t property accessPath params state =
           Some (Inr (''TS.Object_'' @ property @ ''('' @ params @ '')'',
                      state\<lparr>usesTSLibrary := True\<rparr>))"
  using assms by (simp add: namedTypeMacro_def)

text \<open>
  Claim C10. A member call whose receiver type has the symbol \<open>ObjectConstructor\<close> lowers
  to \<open>TS.Object_<member>(<args>)\<close>: the argument list holds the lowered arguments only,
  the lowered receiver is not passed, and the runtime-library flag is set. The receiver
  type is neither an array nor a string type (those strategies come first), and the
  collaborators are assumed to return.
\<close>

theorem object_constructor_call:
  assumes "call_getExpression node = PropertyAccessExpression subExp property expType"
    and "getSymbol (getType subExp) = Some tsym"
    and "sym_getEscapedName tsym = ''ObjectConstructor''"
    and "\<not> isArrayType (getType subExp)"
    and "\<not> isString (getType subExp)" and "\<not> isStringLiteral (getType subExp)"
    and "validateApiAccess env state property = Inr state1"
    and "transpileExpression env state1 subExp = Inr (accessPath, state2)"
    and "transpileArguments env state2 (call_getArguments node) = Inr (params, state3)"
  shows "transpileCallExpression env state node doNotWrapTupleReturn =
           Inr (''TS.Object_'' @ property @ ''('' @ params @ '')'',
                state3\<lparr>usesTSLibrary := True\<rparr>)
         \<and> usesTSLibrary (state3\<lparr>usesTSLibrary := True\<rparr>)"
  using assms
  by (simp add: transpileCallExpression_def transpilePropertyCallExpression_def
      namedTypeMacro_ObjectConstructor)

theorem object_constructor_call_witness:
  "transpileCallExpression exampleCallEnv exampleState objectKeysCall False =
     Inr (''TS.Object_keys(o)'', exampleState\<lparr>usesTSLibrary := True\<rparr>)"
  using object_constructor_call [where node = objectKeysCall
      and subExp = "OtherExpression ''Object'' (namedType ''ObjectConstructor'' [OtherDeclaration])"
      and property = "''keys''" and expType = methodType
      and tsym = "\<lparr>sym_getEscapedName = ''ObjectConstructor'',
                   sym_getName = ''ObjectConstructor'',
                   sym_getDeclarations = [OtherDeclaration]\<rparr>"
      and env = exampleCallEnv and state = exampleState and ?state1.0 = exampleState
      and accessPath = "''Object''" and ?state2.0 = exampleState and params = "''o''"
      and ?state3.0 = exampleState and doNotWrapTupleReturn = False]
  by (simp add: objectKeysCall_def exampleCallEnv_def namedType_def plainType_def)

lemma namedTypeMacro_math:
  assumes "getSymbol t = Some tsym" and "sym_getEscapedName tsym \<in> set RBX_MATH_CLASSES"
    and "(property, operator) \<in>
           set [(''add'', ''+''), (''sub'', ''-''), (''mul'', ''*''), (''div'', ''/'')]"
  shows "namedTypeMacro node t property accessPath params state =
           Some (mathMacro node (sym_getEscapedName tsym) property operator accessPath
                   params state)"
  using assms by (auto simp add: namedTypeMacro_def RBX_MATH_CLASSES_def)

text \<open>
  Claim C6. A call to \<open>add\<close>, \<open>sub\<close>, \<open>mul\<close> or \<open>div\<close> on a receiver whose type symbol is
  one of the Roblox math classes raises \<open>NoMacroMathExpressionStatement\<close> when the call is
  an expression statement, and lowers to the parenthesized infix expression
  \<open>(<receiver> <op> (<args>))\<close> otherwise.
\<close>

theorem math_macro_call:
  assumes "call_getExpression node = PropertyAccessExpression subExp property expType"
    and "getSymbol (getType subExp) = Some tsym"
    and "sym_getEscapedName tsym \<in> set RBX_MATH_CLASSES"
    and "(property, operator) \<in>
           set [(''add'', ''+''), (''sub'', ''-''), (''mul'', ''*''), (''div'', ''/'')]"
    and "\<not> isArrayType (getType subExp)"
    and "\<not> isString (getType subExp)" and "\<not> isStringLiteral (getType subExp)"
    and "validateApiAccess env state property = Inr state1"
    and "transpileExpression env state1 subExp = Inr (accessPath, state2)"
    and "transpileArguments env state2 (call_getArguments node) = Inr (params, state3)"
  shows "transpileCallExpression env state node doNotWrapTupleReturn =
           (if call_parentIsExpressionStatement node
            then Inl (TranspilerError
                        (sym_getEscapedName tsym @ ''.'' @ property
                           @ ''() cannot be an expression statement!'')
                        NoMacroMathExpressionStatement)
            else Inr (''('' @ accessPath @ '' '' @ operator @ '' ('' @ params @ ''))'',
                      state3))"
  using assms(1,2,5-10) namedTypeMacro_math [OF assms(2,3,4)]
  by (simp add: transpileCallExpression_def transpilePropertyCallExpression_def
      mathMacro_def validateMathCall_def)

theorem math_macro_call_witness:
  "transpileCallExpression exampleCallEnv exampleState (vectorAddCall False) False =
     Inr (''(v + (w))'', exampleState)
   \<and> transpileCallExpression exampleCallEnv exampleState (vectorAddCall True) False =
     Inl (TranspilerError ''Vector3.add() cannot be an expression statement!''
            NoMacroMathExpressionStatement)"
proof -
  have "transpileCallExpression exampleCallEnv exampleState (vectorAddCall b) False =
          (if call_parentIsExpressionStatement (vectorAddCall b)
           then Inl (TranspilerError ''Vector3.add() cannot be an expression statement!''
                       NoMacroMathExpressionStatement)
           else Inr (''(v + (w))'', exampleState))" for b
    using math_macro_call [where node = "vectorAddCall b"
        and subExp = "OtherExpression ''v'' (namedType ''Vector3'' [OtherDeclaration])"
        and property = "''add''" and operator = "''+''" and expType = methodType
        and tsym = "\<lparr>sym_getEscapedName = ''Vector3'', sym_getName = ''Vector3'',
                     sym_getDeclarations = [OtherDeclaration]\<rparr>"
        and env = exampleCallEnv and state = exampleState and ?state1.0 = exampleState
        and accessPath = "''v''" and ?state2.0 = exampleState and params = "''w''"
        and ?state3.0 = exampleState and doNotWrapTupleReturn = False]
    by (simp add: vectorAddCall_def exampleCallEnv_def namedType_def plainType_def
        RBX_MATH_CLASSES_def)
  from this [of False] this [of True] show ?thesis
    by (simp add: vectorAddCall_def)
qed

text \<open>
  Claim C7, as amended. A \<open>super(...)\<close> call whose base class resolves lowers to
  \<open><Base>.constructor(self[, args])\<close>. A member call on a \<open>super\<close> receiver whose member
  resolves to a method declaration or signature lowers to
  \<open><Base>.__index.<member>(self[, args])\<close> with the plain field separator, provided that
  no earlier strategy takes the call: the type of \<open>super\<close> is neither an array nor a
  string type and no named-type macro matches it and the member. The text is wrapped as
  a tuple return like that of every default member call.
\<close>

theorem super_call_lowering:
  "(call_getExpression node = SuperExpression t \<and> getSymbol t = Some tsym
      \<and> transpileArguments env state (call_getArguments node) = Inr (params, state1)
    \<longrightarrow> transpileCallExpression env state node doNotWrapTupleReturn =
          Inr (sym_getName tsym @ ''.constructor(self''
                 @ (if params = [] then [] else '', '' @ params) @ '')'', state1))
   \<and> (call_getExpression node = PropertyAccessExpression (SuperExpression t) property expType
      \<and> resolvesToMethod expType \<and> getSymbol t = Some tsym
      \<and> \<not> isArrayType t \<and> \<not> isString t \<and> \<not> isStringLiteral t
      \<and> validateApiAccess env state property = Inr state1
      \<and> transpileExpression env state1 (SuperExpression t) = Inr (accessPath, state2)
      \<and> transpileArguments env state2 (call_getArguments node) = Inr (params, state3)
      \<and> namedTypeMacro node t property accessPath params state3 = None
    \<longrightarrow> transpileCallExpression env state node doNotWrapTupleReturn =
          Inr (wrapTupleReturn doNotWrapTupleReturn (call_getReturnType node)
                 (sym_getName tsym @ ''.__index'' @ ''.'' @ property @ ''(self''
                    @ (if params = [] then [] else '', '' @ params) @ '')''), state3))"
  by (simp add: transpileCallExpression_def transpilePropertyCallExpression_def
      defaultMemberCall_def getSymbolOrThrow_def)

theorem super_call_lowering_witness:
  "transpileCallExpression exampleCallEnv exampleState superCall False =
     Inr (''Animal.constructor(self, a, b)'', exampleState)
   \<and> transpileCallExpression exampleCallEnv exampleState
       (superMemberCall ''Animal'' ''speak'') False =
     Inr (''Animal.__index.speak(self, k, v)'', exampleState)"
proof -
  have a: "transpileCallExpression exampleCallEnv exampleState superCall False =
             Inr (''Animal.constructor(self, a, b)'', exampleState)"
    using super_call_lowering [where node = superCall
        and t = "namedType ''Animal'' [OtherDeclaration]"
        and tsym = "\<lparr>sym_getEscapedName = ''Animal'', sym_getName = ''Animal'',
                     sym_getDeclarations = [OtherDeclaration]\<rparr>"
        and env = exampleCallEnv and state = exampleState and params = "''a, b''"
        and ?state1.0 = exampleState and doNotWrapTupleReturn = False]
    by (simp add: superCall_def exampleCallEnv_def namedType_def plainType_def)
  have b: "transpileCallExpression exampleCallEnv exampleState
             (superMemberCall ''Animal'' ''speak'') False =
             Inr (''Animal.__index.speak(self, k, v)'', exampleState)"
    using super_call_lowering [where node = "superMemberCall ''Animal'' ''speak''"
        and t = "namedType ''Animal'' [OtherDeclaration]"
        and tsym = "\<lparr>sym_getEscapedName = ''Animal'', sym_getName = ''Animal'',
                     sym_getDeclarations = [OtherDeclaration]\<rparr>"
        and env = exampleCallEnv and state = exampleState and params = "''k, v''"
        and ?state1.0 = exampleState and ?state2.0 = exampleState and ?state3.0 = exampleState
        and property = "''speak''" and expType = methodType and accessPath = "''super''"
        and doNotWrapTupleReturn = False]
    by (simp add: superMemberCall_def exampleCallEnv_def namedType_def plainType_def
        methodType_def resolvesToMethod_def wrapTupleReturn_def namedTypeMacro_def
        RBX_MATH_CLASSES_def)
  from a b show ?thesis by simp
qed

text \<open>
  The claim as stated fails: in a class derived from \<open>Map\<close>, the call \<open>super.set(k, v)\<close>
  has a \<open>super\<close> receiver and a member that resolves to a method, and it lowers to the
  map macro \<open>TS.map_set(super, k, v)\<close>, not to \<open>Map.__index.set(self, k, v)\<close>.
\<close>

theorem super_member_call_counterexample:
  "isSuperExpression (SuperExpression (namedType ''Map'' [OtherDeclaration]))
   \<and> call_getExpression (superMemberCall ''Map'' ''set'') =
       PropertyAccessExpression (SuperExpression (namedType ''Map'' [OtherDeclaration]))
         ''set'' methodType
   \<and> resolvesToMethod methodType
   \<and> transpileCallExpression exampleCallEnv exampleState (superMemberCall ''Map'' ''set'') False =
       Inr (''TS.map_set(super, k, v)'', exampleState\<lparr>usesTSLibrary := True\<rparr>)
   \<and> transpileCallExpression exampleCallEnv exampleState (superMemberCall ''Map'' ''set'') False \<noteq>
       Inr (''Map.__index.set(self, k, v)'', exampleState)"
  by (simp add: superMemberCall_def exampleCallEnv_def namedType_def plainType_def
        methodType_def resolvesToMethod_def namedTypeMacro_def paramStr_def
        transpileCallExpression_def transpilePropertyCallExpression_def)

text \<open>
  Claim C8. A plain call (the callee is neither a member access nor \<open>super\<close>) whose
  callee lowers to \<open>callPath\<close> and whose arguments lower to \<open>params\<close> lowers to
  \<open>{ callPath(params) }\<close> when the return type is a tuple type and the suppression flag
  is not passed, and to \<open>callPath(params)\<close> when the flag is passed or the return type
  is no tuple type. A member call that reaches the default strategy (no array, string or
  named-type macro applies) lowers in the same way to \<open>{ call }\<close> or to \<open>call\<close>, where
  \<open>call\<close> is \<open>receiver:member(params)\<close> for a method, \<open>receiver.member(params)\<close> for
  a field and \<open><Base>.__index.member(self[, params])\<close> for a method on \<open>super\<close>. The
  braces are added once, around the text made of the collaborators' results.
\<close>

theorem tuple_return_wrapped_once:
  "(call_getExpression node = OtherExpression src t
      \<and> transpileExpression env state (OtherExpression src t) = Inr (callPath, state1)
      \<and> transpileArguments env state1 (call_getArguments node) = Inr (params, state2)
    \<longrightarrow> transpileCallExpression env state node doNotWrapTupleReturn =
          Inr (if \<not> doNotWrapTupleReturn \<and> isTupleType (call_getReturnType node)
               then ''{ '' @ callPath @ ''('' @ params @ '')'' @ '' }''
               else callPath @ ''('' @ params @ '')'', state2))
   \<and> (call_getExpression node = PropertyAccessExpression subExp property expType
      \<and> \<not> isArrayType (getType subExp) \<and> \<not> isString (getType subExp)
      \<and> \<not> isStringLiteral (getType subExp)
      \<and> validateApiAccess env state property = Inr state1
      \<and> transpileExpression env state1 subExp = Inr (accessPath, state2)
      \<and> transpileArguments env state2 (call_getArguments node) = Inr (params, state3)
      \<and> namedTypeMacro node (getType subExp) property accessPath params state3 = None
      \<and> (isSuperExpression subExp \<and> resolvesToMethod expType
           \<longrightarrow> getSymbol (getType subExp) = Some tsym)
    \<longrightarrow> transpileCallExpression env state node doNotWrapTupleReturn =
          Inr (if \<not> doNotWrapTupleReturn \<and> isTupleType (call_getReturnType node)
               then ''{ ''
                    @ (if resolvesToMethod expType then
                         (if isSuperExpression subExp
                          then sym_getName tsym @ ''.__index.'' @ property @ ''(self''
                               @ (if params = [] then [] else '', '' @ params) @ '')''
                          else accessPath @ '':'' @ property @ ''('' @ params @ '')'')
                       else accessPath @ ''.'' @ property @ ''('' @ params @ '')'')
                    @ '' }''
               else (if resolvesToMethod expType then
                       (if isSuperExpression subExp
                        then sym_getName tsym @ ''.__index.'' @ property @ ''(self''
                             @ (if params = [] then [] else '', '' @ params) @ '')''
                        else accessPath @ '':'' @ property @ ''('' @ params @ '')'')
                     else accessPath @ ''.'' @ property @ ''('' @ params @ '')''),
               state3))"
  by (simp add: transpileCallExpression_def transpilePropertyCallExpression_def
      defaultMemberCall_def getSymbolOrThrow_def wrapTupleReturn_def)

theorem tuple_return_wrapped_once_witness:
  "transpileCallExpression exampleCallEnv exampleState tupleCall False =
     Inr (''{ f(x) }'', exampleState)
   \<and> transpileCallExpression exampleCallEnv exampleState tupleCall True =
     Inr (''f(x)'', exampleState)
   \<and> transpileCallExpression exampleCallEnv exampleState (tupleMemberCall True) False =
     Inr (''{ obj:pair(x) }'', exampleState)
   \<and> transpileCallExpression exampleCallEnv exampleState (tupleMemberCall True) True =
     Inr (''obj:pair(x)'', exampleState)
   \<and> transpileCallExpression exampleCallEnv exampleState (tupleMemberCall False) False =
     Inr (''{ obj.pair(x) }'', exampleState)"
proof -
  have plain: "transpileCallExpression exampleCallEnv exampleState tupleCall flag =
                 Inr (if flag then ''f(x)'' else ''{ f(x) }'', exampleState)" for flag
    using tuple_return_wrapped_once [where node = tupleCall and src = "''f''"
        and t = plainType and env = exampleCallEnv and state = exampleState
        and callPath = "''f''" and ?state1.0 = exampleState and params = "''x''"
        and ?state2.0 = exampleState and doNotWrapTupleReturn = flag]
    by (simp add: tupleCall_def exampleCallEnv_def)
  have methodCall: "transpileCallExpression exampleCallEnv exampleState (tupleMemberCall True) flag =
                 Inr (if flag then ''obj:pair(x)'' else ''{ obj:pair(x) }'', exampleState)"
    for flag
    using tuple_return_wrapped_once [where node = "tupleMemberCall True"
        and subExp = "OtherExpression ''obj'' (namedType ''Pairs'' [OtherDeclaration])"
        and property = "''pair''" and expType = methodType
        and tsym = "\<lparr>sym_getEscapedName = ''Pairs'', sym_getName = ''Pairs'',
                     sym_getDeclarations = [OtherDeclaration]\<rparr>"
        and env = exampleCallEnv and state = exampleState and ?state1.0 = exampleState
        and accessPath = "''obj''" and ?state2.0 = exampleState and params = "''x''"
        and ?state3.0 = exampleState and doNotWrapTupleReturn = flag]
    by (simp add: tupleMemberCall_def exampleCallEnv_def namedType_def plainType_def
        methodType_def resolvesToMethod_def namedTypeMacro_def RBX_MATH_CLASSES_def)
  have fieldCall: "transpileCallExpression exampleCallEnv exampleState (tupleMemberCall False) flag =
                 Inr (if flag then ''obj.pair(x)'' else ''{ obj.pair(x) }'', exampleState)"
    for flag
    using tuple_return_wrapped_once [where node = "tupleMemberCall False"
        and subExp = "OtherExpression ''obj'' (namedType ''Pairs'' [OtherDeclaration])"
        and property = "''pair''" and expType = plainType
        and tsym = "\<lparr>sym_getEscapedName = ''Pairs'', sym_getName = ''Pairs'',
                     sym_getDeclarations = [OtherDeclaration]\<rparr>"
        and env = exampleCallEnv and state = exampleState and ?state1.0 = exampleState
        and accessPath = "''obj''" and ?state2.0 = exampleState and params = "''x''"
        and ?state3.0 = exampleState and doNotWrapTupleReturn = flag]
    by (simp add: tupleMemberCall_def exampleCallEnv_def namedType_def plainType_def
        resolvesToMethod_def namedTypeMacro_def RBX_MATH_CLASSES_def)
  from plain [of False] plain [of True] methodCall [of False] methodCall [of True]
    fieldCall [of False]
  show ?thesis by simp
qed

section \<open>Properties of the source-file wrapper\<close>

lemma exportEqualsLoop_flag_set:
  "descendants \<noteq> [] \<Longrightarrow> exportEqualsLoop descendants True = Inl multipleExportEqualsError"
  by (cases descendants) simp_all

lemma exportEqualsLoop_multiple:
  "1 < length (filter isExportEquals descendants)
     \<Longrightarrow> exportEqualsLoop descendants hasExportEquals = Inl multipleExportEqualsError"
proof (induction descendants arbitrary: hasExportEquals)
  case Nil
  then show ?case by simp
next
  case (Cons d ds)
  show ?case
  proof (cases "isExportEquals d")
    case True
    with Cons.prems have "ds \<noteq> []" by auto
    with True show ?thesis by (simp add: exportEqualsLoop_flag_set)
  next
    case False
    with Cons show ?thesis by simp
  qed
qed

text \<open>
  The loop rejects a file exactly when some \<open>export =\<close> is followed by another export
  assignment of either form.
\<close>

lemma exportEqualsLoop_rejects_iff:
  "exportEqualsLoop descendants False = Inl multipleExportEqualsError
     \<longleftrightarrow> (\<exists>before d after. descendants = before @ d # after
            \<and> isExportEquals d \<and> after \<noteq> []
            \<and> list_all (\<lambda>b. \<not> isExportEquals b) before)"
proof (induction descendants)
  case Nil
  then show ?case by simp
next
  case (Cons d ds)
  show ?case
  proof (cases "isExportEquals d")
    case True
    show ?thesis
    proof (cases "ds = []")
      case True
      with \<open>isExportEquals d\<close> show ?thesis
        by (auto simp add: Cons_eq_append_conv)
    next
      case False
      have "\<exists>before d' after. d # ds = before @ d' # after \<and> isExportEquals d'
              \<and> after \<noteq> [] \<and> list_all (\<lambda>b. \<not> isExportEquals b) before"
        using \<open>isExportEquals d\<close> False
        by (intro exI [of _ "[]"] exI [of _ d] exI [of _ ds]) simp
      with \<open>isExportEquals d\<close> False show ?thesis
        by (simp add: exportEqualsLoop_flag_set)
    qed
  next
    case False
    have "(\<exists>before d' after. d # ds = before @ d' # after \<and> isExportEquals d'
             \<and> after \<noteq> [] \<and> list_all (\<lambda>b. \<not> isExportEquals b) before)
          \<longleftrightarrow> (\<exists>before d' after. ds = before @ d' # after \<and> isExportEquals d'
             \<and> after \<noteq> [] \<and> list_all (\<lambda>b. \<not> isExportEquals b) before)"
      (is "?L \<longleftrightarrow> ?R")
    proof
      assume ?L
      then obtain before d' after where h: "d # ds = before @ d' # after" "isExportEquals d'"
        "after \<noteq> []" "list_all (\<lambda>b. \<not> isExportEquals b) before"
        by blast
      with False obtain before' where "before = d # before'"
        by (cases before) auto
      with h show ?R by auto
    next
      assume ?R
      then obtain before d' after where h: "ds = before @ d' # after" "isExportEquals d'"
        "after \<noteq> []" "list_all (\<lambda>b. \<not> isExportEquals b) before"
        by blast
      with False show ?L
        by (intro exI [of _ "d # before"] exI [of _ d'] exI [of _ after]) simp
    qed
    with False Cons.IH show ?thesis by simp
  qed
qed

text \<open>
  The first half of claim C9 holds: a module file of script type \<open>Module\<close> with more than
  one \<open>export =\<close> is rejected with \<open>MultipleExportEquals\<close>, and no text is produced.
\<close>

lemma multiple_export_equals_rejected:
  assumes "transpileStatementedNode env (state\<lparr>scriptContext := getScriptContext env node\<rparr>)
             node = Inr (body, state')"
    and "isModule state'" and "getScriptType env node = Module"
    and "1 < length (filter isExportEquals (file_getExportAssignments node))"
  shows "transpileSourceFile env state node = Inl multipleExportEqualsError"
  using assms by (simp add: transpileSourceFile_def exportEqualsLoop_multiple)

text \<open>
  Claim C9, second half: a file with at most one \<open>export =\<close> is not rejected by the
  check. The code does not do that. The module \<open>export = a; export default b\<close> has one
  \<open>export =\<close>, and the wrapper rejects it with \<open>MultipleExportEquals\<close>: the loop tests
  the flag set by the \<open>export =\<close> when it reaches the \<open>export default\<close>, before looking
  at what that node is. With the two statements in the other order the file is accepted.
\<close>

theorem single_export_equals_rejected:
  "length (filter isExportEquals (file_getExportAssignments exportEqualsThenDefaultFile)) = 1
   \<and> transpileSourceFile exampleFileEnv exampleState exportEqualsThenDefaultFile =
       Inl (TranspilerError
              (''ModuleScript contains multiple ExportEquals. You can only do '' @ [CHR 0x60]
                 @ ''export = '' @ [CHR 0x60] @ '' once.'')
              MultipleExportEquals)
   \<and> exportEqualsLoop [\<lparr>isExportEquals = False\<rparr>, \<lparr>isExportEquals = True\<rparr>] False = Inr True"
  by (simp add: exportEqualsThenDefaultFile_def exampleFileEnv_def transpileSourceFile_def
      multipleExportEqualsError_def)

section \<open>Properties of the class lowering\<close>

subsection \<open>Auxiliary facts\<close>

declare getClassMethod.simps [simp del]
declare ancestorHasAccessor.simps [simp del]
declare ancestorChain.simps [simp del]

lemma bindE_eq_Inr: "bindE m f = Inr y \<longleftrightarrow> (\<exists>x. m = Inr x \<and> f x = Inr y)"
  by (cases m) (simp_all add: bindE_def)

lemma popIndent_pushIndent [simp]: "popIndent (pushIndent state) = state"
  by (simp add: popIndent_def pushIndent_def)

lemma indent_pushIndent [simp]: "indent (pushIndent state) = indent state @ [CHR 0x09]"
  by (simp add: pushIndent_def)

text \<open>The lines of the \<open>new\<close> factory and of the two accessor functions, written out.\<close>

lemma newFactoryStage_eq:
  "newFactoryStage state name node =
     (if class_isAbstract node then []
      else indent state @ name @ ''.new = function(...)\<newline>''
           @ indent state @ [CHR 0x09] @ ''return '' @ name
           @ ''.constructor(setmetatable({}, '' @ name @ ''), ...);\<newline>''
           @ indent state @ ''end;\<newline>'', state)"
  by (simp add: newFactoryStage_def Let_def)

lemma indexFunction_eq:
  "indexFunction state name =
     (indent state @ ''local __index = '' @ name @ ''.__index;\<newline>''
      @ indent state @ name @ ''.__index = function(self, index)\<newline>''
      @ indent state @ [CHR 0x09] @ ''local getter = '' @ name @ ''._getters[index];\<newline>''
      @ indent state @ [CHR 0x09] @ ''if getter then\<newline>''
      @ indent state @ [CHR 0x09, CHR 0x09] @ ''return getter(self);\<newline>''
      @ indent state @ [CHR 0x09] @ ''else\<newline>''
      @ indent state @ [CHR 0x09, CHR 0x09] @ ''return __index[index];\<newline>''
      @ indent state @ [CHR 0x09] @ ''end;\<newline>''
      @ indent state @ ''end;\<newline>'', state)"
  by (simp add: indexFunction_def Let_def)

lemma newindexFunction_eq:
  "newindexFunction state name =
     (indent state @ name @ ''.__newindex = function(self, index, value)\<newline>''
      @ indent state @ [CHR 0x09] @ ''local setter = '' @ name @ ''._setters[index];\<newline>''
      @ indent state @ [CHR 0x09] @ ''if setter then\<newline>''
      @ indent state @ [CHR 0x09, CHR 0x09] @ ''setter(self, value);\<newline>''
      @ indent state @ [CHR 0x09] @ ''else\<newline>''
      @ indent state @ [CHR 0x09, CHR 0x09] @ ''rawset(self, index, value);\<newline>''
      @ indent state @ [CHR 0x09] @ ''end;\<newline>''
      @ indent state @ ''end;\<newline>'', state)"
  by (simp add: newindexFunction_def Let_def)

text \<open>
  A class that is not a Roact component lowers to the rendering of the pieces of its body.
\<close>

lemma transpileClass_NotRoact:
  assumes "classNameStage env state node = Inr (name, state1)"
    and "roactBaseTypes env (class_getBaseTypes node) = NotRoact"
  shows "transpileClass env state node =
           bindE (transpileClassBody env state1 name node) (\<lambda>(parts, state).
             Inr (renderClass parts, state))"
  using assms by (simp add: transpileClass_def)

lemma transpileClassBody_Inr:
  assumes "transpileClassBody env state name node = Inr (parts, state')"
  shows "\<exists>tables inits s2 mm ctor s3 sp s4 g s5 st s6.
    classTablesStage env state name node = Inr ((tables, inits), s2)
    \<and> metamethodsLoop node name (indent s2) LUA_RESERVED_METAMETHODS = Inr mm
    \<and> transpileConstructorDeclaration env s2 name (getConstructor node) inits
         (hasInstanceInheritance node) = Inr (ctor, s3)
    \<and> staticPropsLoop env name s3 (class_getStaticProperties node) = Inr (sp, s4)
    \<and> gettersStage env name s4 node = Inr (g, s5)
    \<and> settersStage env name s5 node = Inr (st, s6)
    \<and> state' = popIndent s6
    \<and> parts = \<lparr>part_header = part_header tables,
               part_superAlias = part_superAlias tables,
               part_staticOpen = part_staticOpen tables,
               part_staticMethods = part_staticMethods tables,
               part_staticClose = part_staticClose tables,
               part_instanceOpen = part_instanceOpen tables,
               part_instanceMethods = part_instanceMethods tables,
               part_instanceClose = part_instanceClose tables,
               part_metamethods = mm,
               part_newFactory = fst (newFactoryStage s2 name node),
               part_constructor = ctor,
               part_staticProperties = sp,
               part_getters = g,
               part_setters = st,
               part_footer = (if class_kind node = ClassExpression
                              then indent (popIndent s6) @ ''end)()''
                              else indent (popIndent s6) @ ''end;\<newline>'')\<rparr>"
proof -
  from assms obtain tables inits s2 where
    a: "classTablesStage env state name node = Inr ((tables, inits), s2)"
    by (auto simp add: transpileClassBody_def bindE_eq_Inr)
  from assms a obtain mm where
    b: "metamethodsLoop node name (indent s2) LUA_RESERVED_METAMETHODS = Inr mm"
    by (auto simp add: transpileClassBody_def bindE_eq_Inr)
  have nf: "snd (newFactoryStage s2 name node) = s2"
    by (simp add: newFactoryStage_eq)
  from assms a b nf obtain ctor s3 where
    c: "transpileConstructorDeclaration env s2 name (getConstructor node) inits
          (hasInstanceInheritance node) = Inr (ctor, s3)"
    by (auto simp add: transpileClassBody_def bindE_eq_Inr split: prod.splits)
  from assms a b nf c obtain sp s4 where
    d: "staticPropsLoop env name s3 (class_getStaticProperties node) = Inr (sp, s4)"
    by (auto simp add: transpileClassBody_def bindE_eq_Inr split: prod.splits)
  from assms a b nf c d obtain g s5 where
    e: "gettersStage env name s4 node = Inr (g, s5)"
    by (auto simp add: transpileClassBody_def bindE_eq_Inr split: prod.splits)
  from assms a b nf c d e obtain st s6 where
    f: "settersStage env name s5 node = Inr (st, s6)"
    by (auto simp add: transpileClassBody_def bindE_eq_Inr split: prod.splits)
  from assms a b c d e f show ?thesis
    by (auto simp add: transpileClassBody_def Let_def newFactoryStage_eq split: prod.splits)
qed




lemma filter_nonempty_list_ex: "(filter P xs = []) = (\<not> list_ex P xs)"
  by (induction xs) auto

lemma ancestorHasAccessor_chain:
  "ancestorHasAccessor kind node = list_ex (declaresAccessor kind) (ancestorChain node)"
proof (induction node rule: ancestorChain.induct)
  case (1 node)
  show ?case
  proof (cases "class_getBaseClass node")
    case None
    then show ?thesis
      by (simp add: ancestorChain.simps [of node] ancestorHasAccessor.simps [of kind node])
  next
    case (Some baseClass)
    with "1.IH" [OF Some] show ?thesis
      by (simp add: ancestorChain.simps [of node] ancestorHasAccessor.simps [of kind node]
          declaresAccessor_def filter_nonempty_list_ex)
  qed
qed

text \<open>Unfolding sets for evaluating the lowering on the example classes.\<close>

lemmas example_defs =
  exampleClassEnv_def exampleState_def exampleMethod_def exampleProperty_def plainType_def
  vectorClass_def shapeClass_def badClass_def animalClass_def dogClass_def baseClass_def
  derivedClass_def

lemmas class_defs =
  transpileClassBody_def classTablesStage_def hoistName_def pushIndent_def popIndent_def
  hasStaticInheritance_def hasInstanceInheritance_def newFactoryStage_def gettersStage_def
  settersStage_def accessorTable_def indexFunction_def newindexFunction_def getConstructor_def
  LUA_RESERVED_METAMETHODS_def LUA_UNDEFINABLE_METAMETHODS_def trampoline_def
  class_getMethod_def Let_def getClassMethod.simps ancestorHasAccessor.simps

lemma example_names:
  "classNameStage exampleClassEnv exampleState vectorClass = Inr (''Vec'', exampleState)"
  "classNameStage exampleClassEnv exampleState shapeClass = Inr (''Shape'', exampleState)"
  "classNameStage exampleClassEnv exampleState badClass = Inr (''Bad'', exampleState)"
  "classNameStage exampleClassEnv exampleState animalClass = Inr (''Animal'', exampleState)"
  "classNameStage exampleClassEnv exampleState dogClass = Inr (''Dog'', exampleState)"
  "classNameStage exampleClassEnv exampleState baseClass = Inr (''Base'', exampleState)"
  "classNameStage exampleClassEnv exampleState derivedClass = Inr (''Derived'', exampleState)"
  by (simp_all add: classNameStage_def example_defs)

lemma example_not_roact:
  "roactBaseTypes exampleClassEnv (class_getBaseTypes vectorClass) = NotRoact"
  "roactBaseTypes exampleClassEnv (class_getBaseTypes shapeClass) = NotRoact"
  "roactBaseTypes exampleClassEnv (class_getBaseTypes badClass) = NotRoact"
  "roactBaseTypes exampleClassEnv (class_getBaseTypes animalClass) = NotRoact"
  "roactBaseTypes exampleClassEnv (class_getBaseTypes dogClass) = NotRoact"
  "roactBaseTypes exampleClassEnv (class_getBaseTypes baseClass) = NotRoact"
  "roactBaseTypes exampleClassEnv (class_getBaseTypes derivedClass) = NotRoact"
  by (simp_all add: example_defs)

subsection \<open>The \<open>new\<close> factory\<close>

text \<open>
  Claim C4. For a class that is not a Roact component and whose lowering returns, the
  output is the rendering of its pieces, and the piece emitted for the factory is empty
  when the class is abstract and is otherwise the one function
  \<open><id>.new = function(...) return <id>.constructor(setmetatable({}, <id>), ...); end;\<close>
  at the indentation left by the table stage. No other piece of the output is emitted by
  the factory code.
\<close>

theorem new_factory:
  assumes "classNameStage env state node = Inr (name, state1)"
    and "roactBaseTypes env (class_getBaseTypes node) = NotRoact"
    and "transpileClassBody env state1 name node = Inr (parts, state')"
  shows "transpileClass env state node = Inr (renderClass parts, state')
         \<and> (\<exists>tables state2.
               classTablesStage env state1 name node = Inr (tables, state2)
               \<and> part_newFactory parts =
                   (if class_isAbstract node then []
                    else indent state2 @ name @ ''.new = function(...)\<newline>''
                         @ indent state2 @ [CHR 0x09] @ ''return '' @ name
                         @ ''.constructor(setmetatable({}, '' @ name @ ''), ...);\<newline>''
                         @ indent state2 @ ''end;\<newline>''))"
proof -
  from transpileClassBody_Inr [OF assms(3)] obtain tables inits s2 where
    "classTablesStage env state1 name node = Inr ((tables, inits), s2)"
    "part_newFactory parts = fst (newFactoryStage s2 name node)"
    by auto
  then have "\<exists>tables state2.
               classTablesStage env state1 name node = Inr (tables, state2)
               \<and> part_newFactory parts =
                   (if class_isAbstract node then []
                    else indent state2 @ name @ ''.new = function(...)\<newline>''
                         @ indent state2 @ [CHR 0x09] @ ''return '' @ name
                         @ ''.constructor(setmetatable({}, '' @ name @ ''), ...);\<newline>''
                         @ indent state2 @ ''end;\<newline>'')"
    by (simp add: newFactoryStage_eq)
  moreover have "transpileClass env state node = Inr (renderClass parts, state')"
    using assms by (simp add: transpileClass_NotRoact)
  ultimately show ?thesis by simp
qed

theorem new_factory_witness:
  "transpileClass exampleClassEnv exampleState shapeClass =
     Inr (''do\<newline>'' @ [CHR 0x09] @ ''Shape = {};\<newline>''
          @ [CHR 0x09] @ ''Shape.__index = {};\<newline>''
          @ [CHR 0x09] @ ''Shape.constructor = function(self, ...) return self; end;\<newline>''
          @ ''end;\<newline>'',
          exampleState\<lparr>hoistStack := [{''Shape''}]\<rparr>)
   \<and> transpileClass exampleClassEnv exampleState vectorClass =
     Inr (''do\<newline>'' @ [CHR 0x09] @ ''Vec = {};\<newline>''
          @ [CHR 0x09] @ ''Vec.__index = {\<newline>''
          @ [CHR 0x09, CHR 0x09] @ ''__add = function(self) end;\<newline>''
          @ [CHR 0x09] @ ''};\<newline>''
          @ [CHR 0x09] @ ''Vec.__add = function(self, ...) return self:__add(...); end;\<newline>''
          @ [CHR 0x09] @ ''Vec.new = function(...)\<newline>''
          @ [CHR 0x09, CHR 0x09] @ ''return Vec.constructor(setmetatable({}, Vec), ...);\<newline>''
          @ [CHR 0x09] @ ''end;\<newline>''
          @ [CHR 0x09] @ ''Vec.constructor = function(self, ...) return self; end;\<newline>''
          @ ''end;\<newline>'',
          exampleState\<lparr>hoistStack := [{''Vec''}]\<rparr>)"
proof -
  obtain shapeParts shapeState where
    shape: "transpileClassBody exampleClassEnv exampleState ''Shape'' shapeClass =
              Inr (shapeParts, shapeState)"
    and "renderClass shapeParts =
           ''do\<newline>'' @ [CHR 0x09] @ ''Shape = {};\<newline>''
           @ [CHR 0x09] @ ''Shape.__index = {};\<newline>''
           @ [CHR 0x09] @ ''Shape.constructor = function(self, ...) return self; end;\<newline>''
           @ ''end;\<newline>''"
    and "shapeState = exampleState\<lparr>hoistStack := [{''Shape''}]\<rparr>"
    by (simp add: example_defs class_defs renderClass_def)
  moreover obtain vecParts vecState where
    vec: "transpileClassBody exampleClassEnv exampleState ''Vec'' vectorClass =
            Inr (vecParts, vecState)"
    and "renderClass vecParts =
          ''do\<newline>'' @ [CHR 0x09] @ ''Vec = {};\<newline>''
          @ [CHR 0x09] @ ''Vec.__index = {\<newline>''
          @ [CHR 0x09, CHR 0x09] @ ''__add = function(self) end;\<newline>''
          @ [CHR 0x09] @ ''};\<newline>''
          @ [CHR 0x09] @ ''Vec.__add = function(self, ...) return self:__add(...); end;\<newline>''
          @ [CHR 0x09] @ ''Vec.new = function(...)\<newline>''
          @ [CHR 0x09, CHR 0x09] @ ''return Vec.constructor(setmetatable({}, Vec), ...);\<newline>''
          @ [CHR 0x09] @ ''end;\<newline>''
          @ [CHR 0x09] @ ''Vec.constructor = function(self, ...) return self; end;\<newline>''
          @ ''end;\<newline>''"
    and "vecState = exampleState\<lparr>hoistStack := [{''Vec''}]\<rparr>"
    by (simp add: example_defs class_defs renderClass_def)
  ultimately show ?thesis
    using new_factory [OF example_names(2) example_not_roact(2) shape]
      new_factory [OF example_names(1) example_not_roact(1) vec]
    by simp
qed

subsection \<open>Metamethod trampolines\<close>

lemma sublist_in_context:
  assumes "sublist xs ys"
  shows "sublist xs (ps @ ys @ ss)"
proof -
  from assms obtain p s where "ys = p @ xs @ s"
    by (auto simp add: sublist_def)
  then have "ps @ ys @ ss = (ps @ p) @ xs @ (s @ ss)"
    by simp
  moreover have "sublist xs ((ps @ p) @ xs @ (s @ ss))"
    by (rule sublist_appendI)
  ultimately show ?thesis by simp
qed

lemma getClassMethod_own:
  "class_getMethod node m \<noteq> None \<Longrightarrow> getClassMethod node m \<noteq> None"
  by (auto simp add: getClassMethod.simps [of node m] split: option.splits)

lemma metamethodsLoop_undefinable:
  assumes "m \<in> set ms" and "m \<in> set LUA_UNDEFINABLE_METAMETHODS"
    and "getClassMethod node m \<noteq> None"
  shows "\<exists>u. u \<in> set ms \<and> u \<in> set LUA_UNDEFINABLE_METAMETHODS
             \<and> getClassMethod node u \<noteq> None
             \<and> metamethodsLoop node name ind ms = Inl (undefinableMetamethodError u)"
  using assms
proof (induction ms)
  case Nil
  then show ?case by simp
next
  case (Cons x xs)
  show ?case
  proof (cases "getClassMethod node x")
    case None
    with Cons.prems have "m \<in> set xs" by auto
    from Cons.IH [OF this Cons.prems(2,3)] None show ?thesis by auto
  next
    case (Some found)
    show ?thesis
    proof (cases "x \<in> set LUA_UNDEFINABLE_METAMETHODS")
      case True
      with Some show ?thesis by auto
    next
      case False
      with Cons.prems have "m \<in> set xs" by auto
      from Cons.IH [OF this Cons.prems(2,3)] Some False show ?thesis by auto
    qed
  qed
qed

lemma metamethodsLoop_trampoline:
  assumes "metamethodsLoop node name ind ms = Inr emitted" and "m \<in> set ms"
    and "getClassMethod node m \<noteq> None"
  shows "m \<notin> set LUA_UNDEFINABLE_METAMETHODS \<and> sublist (trampoline ind name m) emitted"
  using assms
proof (induction ms arbitrary: emitted)
  case Nil
  then show ?case by simp
next
  case (Cons x xs)
  show ?case
  proof (cases "getClassMethod node x")
    case None
    with Cons.prems have "metamethodsLoop node name ind xs = Inr emitted" "m \<in> set xs"
      by auto
    from Cons.IH [OF this Cons.prems(3)] show ?thesis .
  next
    case (Some found)
    with Cons.prems(1) have x: "x \<notin> set LUA_UNDEFINABLE_METAMETHODS"
      by (auto split: if_splits)
    with Some Cons.prems(1) obtain rest where
      rest: "metamethodsLoop node name ind xs = Inr rest"
      "emitted = trampoline ind name x @ rest"
      by (auto simp add: bindE_eq_Inr)
    show ?thesis
    proof (cases "m = x")
      case True
      with x rest show ?thesis by simp
    next
      case False
      with Cons.prems have "m \<in> set xs" by simp
      from Cons.IH [OF rest(1) this Cons.prems(3)] rest(2)
        sublist_in_context [of "trampoline ind name m" rest "trampoline ind name x" "[]"]
      show ?thesis by simp
    qed
  qed
qed

lemma metamethodsLoop_returns:
  assumes "\<forall>u \<in> set ms. u \<in> set LUA_UNDEFINABLE_METAMETHODS \<longrightarrow> getClassMethod node u = None"
  shows "\<exists>emitted. metamethodsLoop node name ind ms = Inr emitted"
  using assms by (induction ms) (auto split: option.splits)

lemma sublist_renderClass_metamethods:
  "sublist xs (part_metamethods parts) \<Longrightarrow> sublist xs (renderClass parts)"
  using sublist_in_context [of xs "part_metamethods parts"
      "part_header parts @ part_superAlias parts @ part_staticOpen parts
       @ part_staticMethods parts @ part_staticClose parts @ part_instanceOpen parts
       @ part_instanceMethods parts @ part_instanceClose parts"
      "part_newFactory parts @ part_constructor parts @ part_staticProperties parts
       @ part_getters parts @ part_setters parts @ part_footer parts"]
  by (simp add: renderClass_def)

text \<open>
  Claim C1. Let the class be no Roact component, let its name resolve and its tables be
  emitted, and let it declare a method named by one of the reserved metamethods. If the
  name is one of \<open>__index\<close>, \<open>__newindex\<close> and \<open>__mode\<close>, the lowering raises
  \<open>UndefinableMetamethod\<close> and produces no output. If neither the class nor an ancestor
  defines a method with one of these three names, the metamethod loop returns, and what
  it emits contains the trampoline
  \<open><id>.<metamethod> = function(self, ...) return self:<metamethod>(...); end;\<close>.
  Whenever the lowering produces output, the name is not one of the three and the output
  contains that trampoline.
\<close>

theorem metamethod_trampolines:
  assumes "classNameStage env state node = Inr (name, state1)"
    and "roactBaseTypes env (class_getBaseTypes node) = NotRoact"
    and "classTablesStage env state1 name node = Inr (tables, state2)"
    and "metamethod \<in> set LUA_RESERVED_METAMETHODS"
    and "class_getMethod node metamethod \<noteq> None"
  shows "(metamethod \<in> set LUA_UNDEFINABLE_METAMETHODS \<longrightarrow>
            (\<exists>u. u \<in> set LUA_UNDEFINABLE_METAMETHODS \<and> getClassMethod node u \<noteq> None
                 \<and> transpileClass env state node =
                     Inl (TranspilerError
                            (''Cannot use undefinable Lua metamethod as identifier ''
                               @ [CHR 0x27] @ u @ [CHR 0x27] @ '' for a class'')
                            UndefinableMetamethod)))
         \<and> ((\<forall>u \<in> set LUA_UNDEFINABLE_METAMETHODS. getClassMethod node u = None) \<longrightarrow>
            (\<exists>emitted.
               metamethodsLoop node name (indent state2) LUA_RESERVED_METAMETHODS = Inr emitted
               \<and> sublist (indent state2 @ name @ ''.'' @ metamethod
                            @ '' = function(self, ...) return self:'' @ metamethod
                            @ ''(...); end;\<newline>'') emitted))
         \<and> (\<forall>out state'. transpileClass env state node = Inr (out, state') \<longrightarrow>
               metamethod \<notin> set LUA_UNDEFINABLE_METAMETHODS
               \<and> sublist (indent state2 @ name @ ''.'' @ metamethod
                            @ '' = function(self, ...) return self:'' @ metamethod
                            @ ''(...); end;\<newline>'') out)"
proof (intro conjI impI allI)
  have defined: "getClassMethod node metamethod \<noteq> None"
    using assms(5) by (rule getClassMethod_own)
  obtain tbl inits where tables: "tables = (tbl, inits)"
    by (cases tables)
  {
    assume "metamethod \<in> set LUA_UNDEFINABLE_METAMETHODS"
    from metamethodsLoop_undefinable [OF assms(4) this defined, of name "indent state2"]
    obtain u where u: "u \<in> set LUA_UNDEFINABLE_METAMETHODS" "getClassMethod node u \<noteq> None"
      "metamethodsLoop node name (indent state2) LUA_RESERVED_METAMETHODS =
         Inl (undefinableMetamethodError u)"
      by blast
    have "transpileClass env state node = Inl (undefinableMetamethodError u)"
      using assms(1,2,3) u(3) tables
      by (simp add: transpileClass_NotRoact transpileClassBody_def)
    with u(1,2)
    show "\<exists>u. u \<in> set LUA_UNDEFINABLE_METAMETHODS \<and> getClassMethod node u \<noteq> None
             \<and> transpileClass env state node =
                 Inl (TranspilerError
                        (''Cannot use undefinable Lua metamethod as identifier ''
                           @ [CHR 0x27] @ u @ [CHR 0x27] @ '' for a class'')
                        UndefinableMetamethod)"
      by (auto simp add: undefinableMetamethodError_def)
  }
  {
    assume "\<forall>u \<in> set LUA_UNDEFINABLE_METAMETHODS. getClassMethod node u = None"
    then have "\<forall>u \<in> set LUA_RESERVED_METAMETHODS.
                 u \<in> set LUA_UNDEFINABLE_METAMETHODS \<longrightarrow> getClassMethod node u = None"
      by blast
    from metamethodsLoop_returns [OF this, of name "indent state2"] obtain emitted where
      e: "metamethodsLoop node name (indent state2) LUA_RESERVED_METAMETHODS = Inr emitted"
      by blast
    from metamethodsLoop_trampoline [OF e assms(4) defined] e
    show "\<exists>emitted.
            metamethodsLoop node name (indent state2) LUA_RESERVED_METAMETHODS = Inr emitted
            \<and> sublist (indent state2 @ name @ ''.'' @ metamethod
                         @ '' = function(self, ...) return self:'' @ metamethod
                         @ ''(...); end;\<newline>'') emitted"
      by (auto simp add: trampoline_def)
  }
  {
    fix out state'
    assume "transpileClass env state node = Inr (out, state')"
    with assms(1,2) obtain parts where
      body: "transpileClassBody env state1 name node = Inr (parts, state')"
      and out: "out = renderClass parts"
      by (auto simp add: transpileClass_NotRoact bindE_eq_Inr)
    from transpileClassBody_Inr [OF body] assms(3) tables have
      "metamethodsLoop node name (indent state2) LUA_RESERVED_METAMETHODS =
         Inr (part_metamethods parts)"
      by auto
    from metamethodsLoop_trampoline [OF this assms(4) defined]
    have "metamethod \<notin> set LUA_UNDEFINABLE_METAMETHODS"
      and "sublist (trampoline (indent state2) name metamethod) (renderClass parts)"
      by (simp_all add: sublist_renderClass_metamethods)
    with out
    show "metamethod \<notin> set LUA_UNDEFINABLE_METAMETHODS"
      and "sublist (indent state2 @ name @ ''.'' @ metamethod
                     @ '' = function(self, ...) return self:'' @ metamethod
                     @ ''(...); end;\<newline>'') out"
      by (simp_all add: trampoline_def)
  }
qed

theorem metamethod_trampolines_witness:
  "transpileClass exampleClassEnv exampleState badClass =
     Inl (TranspilerError
            (''Cannot use undefinable Lua metamethod as identifier '' @ [CHR 0x27]
               @ ''__index'' @ [CHR 0x27] @ '' for a class'')
            UndefinableMetamethod)
   \<and> (\<exists>out state'.
         transpileClass exampleClassEnv exampleState vectorClass = Inr (out, state')
         \<and> sublist ([CHR 0x09]
                      @ ''Vec.__add = function(self, ...) return self:__add(...); end;\<newline>'')
               out)"
proof -
  obtain badTables badState where
    bad: "classTablesStage exampleClassEnv exampleState ''Bad'' badClass =
            Inr (badTables, badState)"
    by (simp add: example_defs class_defs)
  have badDeclares: "class_getMethod badClass ''__index'' \<noteq> None"
    by (simp add: example_defs class_defs)
  have "\<exists>u. u \<in> set LUA_UNDEFINABLE_METAMETHODS \<and> getClassMethod badClass u \<noteq> None
          \<and> transpileClass exampleClassEnv exampleState badClass =
              Inl (TranspilerError
                     (''Cannot use undefinable Lua metamethod as identifier '' @ [CHR 0x27]
                        @ u @ [CHR 0x27] @ '' for a class'')
                     UndefinableMetamethod)"
    using metamethod_trampolines [OF example_names(3) example_not_roact(3) bad _ badDeclares]
    by (simp add: LUA_RESERVED_METAMETHODS_def LUA_UNDEFINABLE_METAMETHODS_def)
  then obtain u where u: "u \<in> set LUA_UNDEFINABLE_METAMETHODS"
    "getClassMethod badClass u \<noteq> None"
    "transpileClass exampleClassEnv exampleState badClass =
       Inl (TranspilerError
              (''Cannot use undefinable Lua metamethod as identifier '' @ [CHR 0x27]
                 @ u @ [CHR 0x27] @ '' for a class'')
              UndefinableMetamethod)"
    by blast
  from u(1,2) have "u = ''__index''"
    by (auto simp add: example_defs class_defs)
  with u(3) have first: "transpileClass exampleClassEnv exampleState badClass =
     Inl (TranspilerError
            (''Cannot use undefinable Lua metamethod as identifier '' @ [CHR 0x27]
               @ ''__index'' @ [CHR 0x27] @ '' for a class'')
            UndefinableMetamethod)"
    by simp
  obtain vecTables vecState where
    vec: "classTablesStage exampleClassEnv exampleState ''Vec'' vectorClass =
            Inr (vecTables, vecState)"
    and ind: "indent vecState = [CHR 0x09]"
    by (simp add: example_defs class_defs)
  have vecDeclares: "class_getMethod vectorClass ''__add'' \<noteq> None"
    by (simp add: example_defs class_defs)
  obtain out state' where
    out: "transpileClass exampleClassEnv exampleState vectorClass = Inr (out, state')"
    by (simp add: transpileClass_def classNameStage_def example_defs class_defs)
  from metamethod_trampolines [OF example_names(1) example_not_roact(1) vec _ vecDeclares]
    out ind
  have "sublist ([CHR 0x09]
                  @ ''Vec.__add = function(self, ...) return self:__add(...); end;\<newline>'')
          out"
    by (simp add: LUA_RESERVED_METAMETHODS_def)
  with out first show ?thesis by blast
qed

subsection \<open>Accessor tables and dispatch functions\<close>

lemma accessorTable_Inr:
  assumes "accessorTable env name tableName state own ancestorHas = Inr (emitted, state')"
  shows "\<exists>content.
           emitted =
             indent state' @ name @ ''.'' @ tableName
             @ (if own \<noteq> [] then
                  (if ancestorHas
                   then '' = setmetatable({'' @ content @ ''}, { __index = super.''
                        @ tableName @ '' });\<newline>''
                   else '' = {'' @ content @ ''};\<newline>'')
                else '' = super.'' @ tableName @ '';\<newline>'')"
  using assms
  by (auto simp add: accessorTable_def bindE_eq_Inr Let_def split: if_splits)

lemma gettersStage_Inr:
  assumes "gettersStage env name state node = Inr (emitted, state')"
  shows "if declaresAccessor GetAccessorDeclaration node
            \<or> list_ex (declaresAccessor GetAccessorDeclaration) (ancestorChain node)
         then \<exists>content.
                emitted =
                  indent state' @ name @ ''._getters''
                  @ (if declaresAccessor GetAccessorDeclaration node then
                       (if list_ex (declaresAccessor GetAccessorDeclaration) (ancestorChain node)
                        then '' = setmetatable({'' @ content
                             @ ''}, { __index = super._getters });\<newline>''
                        else '' = {'' @ content @ ''};\<newline>'')
                     else '' = super._getters;\<newline>'')
                  @ fst (indexFunction state' name)
         else emitted = []"
proof (cases "declaresAccessor GetAccessorDeclaration node
            \<or> list_ex (declaresAccessor GetAccessorDeclaration) (ancestorChain node)")
  case False
  with assms show ?thesis
    by (simp add: gettersStage_def Let_def ancestorHasAccessor_chain declaresAccessor_def
        filter_nonempty_list_ex)
next
  case True
  with assms obtain tbl where
    t: "accessorTable env name ''_getters'' state
          (filter (\<lambda>prop. prop_kind prop = GetAccessorDeclaration)
             (class_getInstanceProperties node))
          (list_ex (declaresAccessor GetAccessorDeclaration) (ancestorChain node))
        = Inr (tbl, state')"
    and e: "emitted = tbl @ fst (indexFunction state' name)"
    by (auto simp add: gettersStage_def Let_def ancestorHasAccessor_chain declaresAccessor_def
        filter_nonempty_list_ex bindE_eq_Inr indexFunction_eq)
  from accessorTable_Inr [OF t] e True show ?thesis
    by (auto simp add: declaresAccessor_def filter_nonempty_list_ex)
qed

lemma settersStage_Inr:
  assumes "settersStage env name state node = Inr (emitted, state')"
  shows "if declaresAccessor SetAccessorDeclaration node
            \<or> list_ex (declaresAccessor SetAccessorDeclaration) (ancestorChain node)
         then \<exists>content.
                emitted =
                  indent state' @ name @ ''._setters''
                  @ (if declaresAccessor SetAccessorDeclaration node then
                       (if list_ex (declaresAccessor SetAccessorDeclaration) (ancestorChain node)
                        then '' = setmetatable({'' @ content
                             @ ''}, { __index = super._setters });\<newline>''
                        else '' = {'' @ content @ ''};\<newline>'')
                     else '' = super._setters;\<newline>'')
                  @ fst (newindexFunction state' name)
         else emitted = []"
proof (cases "declaresAccessor SetAccessorDeclaration node
            \<or> list_ex (declaresAccessor SetAccessorDeclaration) (ancestorChain node)")
  case False
  with assms show ?thesis
    by (simp add: settersStage_def Let_def ancestorHasAccessor_chain declaresAccessor_def
        filter_nonempty_list_ex)
next
  case True
  with assms obtain tbl where
    t: "accessorTable env name ''_setters'' state
          (filter (\<lambda>prop. prop_kind prop = SetAccessorDeclaration)
             (class_getInstanceProperties node))
          (list_ex (declaresAccessor SetAccessorDeclaration) (ancestorChain node))
        = Inr (tbl, state')"
    and e: "emitted = tbl @ fst (newindexFunction state' name)"
    by (auto simp add: settersStage_def Let_def ancestorHasAccessor_chain declaresAccessor_def
        filter_nonempty_list_ex bindE_eq_Inr newindexFunction_eq)
  from accessorTable_Inr [OF t] e True show ?thesis
    by (auto simp add: declaresAccessor_def filter_nonempty_list_ex)
qed

text \<open>
  Claim C2. For a class that is not a Roact component and whose lowering returns: when
  the class declares a get accessor or an ancestor declares one, the piece emitted for
  the getters is the assignment of the \<open>_getters\<close> table followed by the replacement of
  the \<open>__index\<close> slot, a function that looks the key up in \<open>_getters\<close> and, in one
  \<open>if ... else\<close>, either returns the result of the accessor or the result of the lookup
  in the instance table saved before in the local \<open>__index\<close>. Otherwise nothing is
  emitted. The same holds for set accessors, the \<open>_setters\<close> table and \<open>__newindex\<close>,
  whose \<open>else\<close> branch is \<open>rawset(self, index, value)\<close>.
\<close>

theorem accessor_dispatch:
  assumes "classNameStage env state node = Inr (name, state1)"
    and "roactBaseTypes env (class_getBaseTypes node) = NotRoact"
    and "transpileClassBody env state1 name node = Inr (parts, state')"
  shows "transpileClass env state node = Inr (renderClass parts, state')
    \<and> (if declaresAccessor GetAccessorDeclaration node
           \<or> list_ex (declaresAccessor GetAccessorDeclaration) (ancestorChain node)
        then \<exists>ind content.
               part_getters parts =
                 ind @ name @ ''._getters''
                 @ (if declaresAccessor GetAccessorDeclaration node then
                      (if list_ex (declaresAccessor GetAccessorDeclaration) (ancestorChain node)
                       then '' = setmetatable({'' @ content
                            @ ''}, { __index = super._getters });\<newline>''
                       else '' = {'' @ content @ ''};\<newline>'')
                    else '' = super._getters;\<newline>'')
                 @ ind @ ''local __index = '' @ name @ ''.__index;\<newline>''
                 @ ind @ name @ ''.__index = function(self, index)\<newline>''
                 @ ind @ [CHR 0x09] @ ''local getter = '' @ name @ ''._getters[index];\<newline>''
                 @ ind @ [CHR 0x09] @ ''if getter then\<newline>''
                 @ ind @ [CHR 0x09, CHR 0x09] @ ''return getter(self);\<newline>''
                 @ ind @ [CHR 0x09] @ ''else\<newline>''
                 @ ind @ [CHR 0x09, CHR 0x09] @ ''return __index[index];\<newline>''
                 @ ind @ [CHR 0x09] @ ''end;\<newline>''
                 @ ind @ ''end;\<newline>''
        else part_getters parts = [])
    \<and> (if declaresAccessor SetAccessorDeclaration node
           \<or> list_ex (declaresAccessor SetAccessorDeclaration) (ancestorChain node)
        then \<exists>ind content.
               part_setters parts =
                 ind @ name @ ''._setters''
                 @ (if declaresAccessor SetAccessorDeclaration node then
                      (if list_ex (declaresAccessor SetAccessorDeclaration) (ancestorChain node)
                       then '' = setmetatable({'' @ content
                            @ ''}, { __index = super._setters });\<newline>''
                       else '' = {'' @ content @ ''};\<newline>'')
                    else '' = super._setters;\<newline>'')
                 @ ind @ name @ ''.__newindex = function(self, index, value)\<newline>''
                 @ ind @ [CHR 0x09] @ ''local setter = '' @ name @ ''._setters[index];\<newline>''
                 @ ind @ [CHR 0x09] @ ''if setter then\<newline>''
                 @ ind @ [CHR 0x09, CHR 0x09] @ ''setter(self, value);\<newline>''
                 @ ind @ [CHR 0x09] @ ''else\<newline>''
                 @ ind @ [CHR 0x09, CHR 0x09] @ ''rawset(self, index, value);\<newline>''
                 @ ind @ [CHR 0x09] @ ''end;\<newline>''
                 @ ind @ ''end;\<newline>''
        else part_setters parts = [])"
proof (intro conjI)
  show "transpileClass env state node = Inr (renderClass parts, state')"
    using assms by (simp add: transpileClass_NotRoact)
  from transpileClassBody_Inr [OF assms(3)] obtain s4 s5 s6 where
    g: "gettersStage env name s4 node = Inr (part_getters parts, s5)"
    and s: "settersStage env name s5 node = Inr (part_setters parts, s6)"
    by auto
  from gettersStage_Inr [OF g]
  show "if declaresAccessor GetAccessorDeclaration node
           \<or> list_ex (declaresAccessor GetAccessorDeclaration) (ancestorChain node)
        then \<exists>ind content.
               part_getters parts =
                 ind @ name @ ''._getters''
                 @ (if declaresAccessor GetAccessorDeclaration node then
                      (if list_ex (declaresAccessor GetAccessorDeclaration) (ancestorChain node)
                       then '' = setmetatable({'' @ content
                            @ ''}, { __index = super._getters });\<newline>''
                       else '' = {'' @ content @ ''};\<newline>'')
                    else '' = super._getters;\<newline>'')
                 @ ind @ ''local __index = '' @ name @ ''.__index;\<newline>''
                 @ ind @ name @ ''.__index = function(self, index)\<newline>''
                 @ ind @ [CHR 0x09] @ ''local getter = '' @ name @ ''._getters[index];\<newline>''
                 @ ind @ [CHR 0x09] @ ''if getter then\<newline>''
                 @ ind @ [CHR 0x09, CHR 0x09] @ ''return getter(self);\<newline>''
                 @ ind @ [CHR 0x09] @ ''else\<newline>''
                 @ ind @ [CHR 0x09, CHR 0x09] @ ''return __index[index];\<newline>''
                 @ ind @ [CHR 0x09] @ ''end;\<newline>''
                 @ ind @ ''end;\<newline>''
        else part_getters parts = []"
    by (simp only: indexFunction_eq fst_conv split: if_splits) blast+
  from settersStage_Inr [OF s]
  show "if declaresAccessor SetAccessorDeclaration node
           \<or> list_ex (declaresAccessor SetAccessorDeclaration) (ancestorChain node)
        then \<exists>ind content.
               part_setters parts =
                 ind @ name @ ''._setters''
                 @ (if declaresAccessor SetAccessorDeclaration node then
                      (if list_ex (declaresAccessor SetAccessorDeclaration) (ancestorChain node)
                       then '' = setmetatable({'' @ content
                            @ ''}, { __index = super._setters });\<newline>''
                       else '' = {'' @ content @ ''};\<newline>'')
                    else '' = super._setters;\<newline>'')
                 @ ind @ name @ ''.__newindex = function(self, index, value)\<newline>''
                 @ ind @ [CHR 0x09] @ ''local setter = '' @ name @ ''._setters[index];\<newline>''
                 @ ind @ [CHR 0x09] @ ''if setter then\<newline>''
                 @ ind @ [CHR 0x09, CHR 0x09] @ ''setter(self, value);\<newline>''
                 @ ind @ [CHR 0x09] @ ''else\<newline>''
                 @ ind @ [CHR 0x09, CHR 0x09] @ ''rawset(self, index, value);\<newline>''
                 @ ind @ [CHR 0x09] @ ''end;\<newline>''
                 @ ind @ ''end;\<newline>''
        else part_setters parts = []"
    by (simp only: newindexFunction_eq fst_conv split: if_splits) blast+
qed

theorem accessor_dispatch_witness:
  "transpileClass exampleClassEnv exampleState dogClass =
     Inr (''do\<newline>''
          @ [CHR 0x09] @ ''local super = Animal;\<newline>''
          @ [CHR 0x09] @ ''Dog = {};\<newline>''
          @ [CHR 0x09] @ ''Dog.__index = setmetatable({}, super);\<newline>''
          @ [CHR 0x09] @ ''Dog.new = function(...)\<newline>''
          @ [CHR 0x09, CHR 0x09] @ ''return Dog.constructor(setmetatable({}, Dog), ...);\<newline>''
          @ [CHR 0x09] @ ''end;\<newline>''
          @ [CHR 0x09] @ ''Dog.constructor = function(self, ...) return self; end;\<newline>''
          @ [CHR 0x09] @ ''Dog._getters = super._getters;\<newline>''
          @ [CHR 0x09] @ ''local __index = Dog.__index;\<newline>''
          @ [CHR 0x09] @ ''Dog.__index = function(self, index)\<newline>''
          @ [CHR 0x09, CHR 0x09] @ ''local getter = Dog._getters[index];\<newline>''
          @ [CHR 0x09, CHR 0x09] @ ''if getter then\<newline>''
          @ [CHR 0x09, CHR 0x09, CHR 0x09] @ ''return getter(self);\<newline>''
          @ [CHR 0x09, CHR 0x09] @ ''else\<newline>''
          @ [CHR 0x09, CHR 0x09, CHR 0x09] @ ''return __index[index];\<newline>''
          @ [CHR 0x09, CHR 0x09] @ ''end;\<newline>''
          @ [CHR 0x09] @ ''end;\<newline>''
          @ [CHR 0x09] @ ''Dog._setters = super._setters;\<newline>''
          @ [CHR 0x09] @ ''Dog.__newindex = function(self, index, value)\<newline>''
          @ [CHR 0x09, CHR 0x09] @ ''local setter = Dog._setters[index];\<newline>''
          @ [CHR 0x09, CHR 0x09] @ ''if setter then\<newline>''
          @ [CHR 0x09, CHR 0x09, CHR 0x09] @ ''setter(self, value);\<newline>''
          @ [CHR 0x09, CHR 0x09] @ ''else\<newline>''
          @ [CHR 0x09, CHR 0x09, CHR 0x09] @ ''rawset(self, index, value);\<newline>''
          @ [CHR 0x09, CHR 0x09] @ ''end;\<newline>''
          @ [CHR 0x09] @ ''end;\<newline>''
          @ ''end;\<newline>'',
          exampleState\<lparr>hoistStack := [{''Dog''}]\<rparr>)
   \<and> (\<exists>parts state'.
         transpileClass exampleClassEnv exampleState vectorClass =
           Inr (renderClass parts, state')
         \<and> part_getters parts = [] \<and> part_setters parts = [])"
proof -
  obtain dogParts dogState where
    dog: "transpileClassBody exampleClassEnv exampleState ''Dog'' dogClass =
            Inr (dogParts, dogState)"
    and "renderClass dogParts =
          ''do\<newline>''
          @ [CHR 0x09] @ ''local super = Animal;\<newline>''
          @ [CHR 0x09] @ ''Dog = {};\<newline>''
          @ [CHR 0x09] @ ''Dog.__index = setmetatable({}, super);\<newline>''
          @ [CHR 0x09] @ ''Dog.new = function(...)\<newline>''
          @ [CHR 0x09, CHR 0x09] @ ''return Dog.constructor(setmetatable({}, Dog), ...);\<newline>''
          @ [CHR 0x09] @ ''end;\<newline>''
          @ [CHR 0x09] @ ''Dog.constructor = function(self, ...) return self; end;\<newline>''
          @ [CHR 0x09] @ ''Dog._getters = super._getters;\<newline>''
          @ [CHR 0x09] @ ''local __index = Dog.__index;\<newline>''
          @ [CHR 0x09] @ ''Dog.__index = function(self, index)\<newline>''
          @ [CHR 0x09, CHR 0x09] @ ''local getter = Dog._getters[index];\<newline>''
          @ [CHR 0x09, CHR 0x09] @ ''if getter then\<newline>''
          @ [CHR 0x09, CHR 0x09, CHR 0x09] @ ''return getter(self);\<newline>''
          @ [CHR 0x09, CHR 0x09] @ ''else\<newline>''
          @ [CHR 0x09, CHR 0x09, CHR 0x09] @ ''return __index[index];\<newline>''
          @ [CHR 0x09, CHR 0x09] @ ''end;\<newline>''
          @ [CHR 0x09] @ ''end;\<newline>''
          @ [CHR 0x09] @ ''Dog._setters = super._setters;\<newline>''
          @ [CHR 0x09] @ ''Dog.__newindex = function(self, index, value)\<newline>''
          @ [CHR 0x09, CHR 0x09] @ ''local setter = Dog._setters[index];\<newline>''
          @ [CHR 0x09, CHR 0x09] @ ''if setter then\<newline>''
          @ [CHR 0x09, CHR 0x09, CHR 0x09] @ ''setter(self, value);\<newline>''
          @ [CHR 0x09, CHR 0x09] @ ''else\<newline>''
          @ [CHR 0x09, CHR 0x09, CHR 0x09] @ ''rawset(self, index, value);\<newline>''
          @ [CHR 0x09, CHR 0x09] @ ''end;\<newline>''
          @ [CHR 0x09] @ ''end;\<newline>''
          @ ''end;\<newline>''"
    and "dogState = exampleState\<lparr>hoistStack := [{''Dog''}]\<rparr>"
    by (simp add: example_defs class_defs renderClass_def)
  moreover obtain vecParts vecState where
    vec: "transpileClassBody exampleClassEnv exampleState ''Vec'' vectorClass =
            Inr (vecParts, vecState)"
    by (simp add: example_defs class_defs)
  moreover have
    "\<not> (declaresAccessor GetAccessorDeclaration vectorClass
        \<or> list_ex (declaresAccessor GetAccessorDeclaration) (ancestorChain vectorClass))"
    "\<not> (declaresAccessor SetAccessorDeclaration vectorClass
        \<or> list_ex (declaresAccessor SetAccessorDeclaration) (ancestorChain vectorClass))"
    by (simp_all add: declaresAccessor_def ancestorChain.simps example_defs)
  ultimately show ?thesis
    using accessor_dispatch [OF example_names(5) example_not_roact(5) dog]
      accessor_dispatch [OF example_names(1) example_not_roact(1) vec]
    by auto
qed

subsection \<open>Inheritance wiring\<close>




end
